theory Spec2Isabelle
  imports
    Main
    "HOL-Library.Char_ord"
    "HOL-Library.List_Lexorder"
    "HOL-Library.Product_Lexorder"
    "HOL-Library.Multiset"
begin

section \<open>License bot: a shallow embedding of the two bot variants\<close>

text \<open>
  The repository holds two near-duplicate variants of one Telegram bot that administers
  license records: \<^verbatim>\<open>src/bot.py\<close> and \<^verbatim>\<open>src/telegram-bot/bot.py\<close>. A definition
  without suffix embeds a function of \<^verbatim>\<open>src/bot.py\<close>; the suffix \<open>_tg\<close> marks the function
  of the same name in \<^verbatim>\<open>src/telegram-bot/bot.py\<close>. Helper functions that are the same text
  in both files (\<open>normalize_cpf_cnpj\<close>, \<open>generate_license_key\<close>, \<open>get_licenses\<close>,
  \<open>save_licenses\<close>, \<open>find_license_by_cpf\<close>) are embedded once.

  Python strings are modelled as \<^typ>\<open>string\<close>: lists of 8-bit characters, read as code
  points below 256. Python integers are \<^typ>\<open>int\<close>.
\<close>

subsection \<open>Strings\<close>

text \<open>\<^verbatim>\<open>\d\<close> of the \<^verbatim>\<open>re\<close> module: among the code points below 256 the decimal digits
  are \<^verbatim>\<open>0\<close> to \<^verbatim>\<open>9\<close>.\<close>

definition is_digit :: "char \<Rightarrow> bool" where
  "is_digit c \<longleftrightarrow> c \<in> set ''0123456789''"

text \<open>\<^verbatim>\<open>re.sub(r"[^\d]", "", value)\<close>: every character that is not a digit is deleted.\<close>

definition normalize_cpf_cnpj :: "string \<Rightarrow> string" where
  "normalize_cpf_cnpj v = filter is_digit v"

text \<open>\<^verbatim>\<open>str.isspace\<close> on one character, for code points below 256: tab, line feed,
  vertical tab, form feed, carriage return, the separators 28 to 31, space, NEL (133) and
  the no-break space (160).\<close>

definition is_space :: "char \<Rightarrow> bool" where
  "is_space c \<longleftrightarrow> (of_char c :: nat) \<in> {9, 10, 11, 12, 13, 28, 29, 30, 31, 32, 133, 160}"

text \<open>\<^verbatim>\<open>str.strip()\<close> removes leading and trailing whitespace.\<close>

definition strip :: "string \<Rightarrow> string" where
  "strip s = rev (dropWhile is_space (rev (dropWhile is_space s)))"

text \<open>\<^verbatim>\<open>sep.join(parts)\<close>.\<close>

fun join :: "string \<Rightarrow> string list \<Rightarrow> string" where
  "join sep [] = []"
| "join sep [p] = p"
| "join sep (p # q # ps) = p @ sep @ join sep (q # ps)"

subsection \<open>Key generator\<close>

text \<open>The alphabet of \<^verbatim>\<open>generate_license_key\<close>.\<close>

definition chars :: string where
  "chars = ''ABCDEFGHJKMNPQRSTUVWXYZ23456789''"

text \<open>
  \<^verbatim>\<open>secrets.choice(seq)\<close> returns \<^verbatim>\<open>seq[randbelow(len(seq))]\<close>. The entropy source is
  an input of the model: \<open>r\<close> is an arbitrary number delivered by it, reduced into the
  range of the indices. Nothing is said about its distribution.
\<close>

definition secrets_choice :: "string \<Rightarrow> nat \<Rightarrow> char" where
  "secrets_choice seq r = seq ! (r mod length seq)"

text \<open>
  One group: \<^verbatim>\<open>"".join(secrets.choice(chars) for _ in range(4))\<close>. The draws are made in
  sequence; group \<open>g\<close> consumes the draws \<open>4 * g\<close> to \<open>4 * g + 3\<close> of the entropy \<open>rnd\<close>.
\<close>

definition key_part :: "(nat \<Rightarrow> nat) \<Rightarrow> nat \<Rightarrow> string" where
  "key_part rnd g = map (\<lambda>j. secrets_choice chars (rnd (4 * g + j))) [0..<4]"

definition generate_license_key :: "(nat \<Rightarrow> nat) \<Rightarrow> string" where
  "generate_license_key rnd = join ''-'' (map (key_part rnd) [0..<4])"

subsection \<open>Calendar dates\<close>

text \<open>
  A \<^verbatim>\<open>datetime.date\<close> is modelled by its proleptic Gregorian ordinal
  (\<^verbatim>\<open>date.toordinal()\<close>): day 1 is 0001-01-01, and \<^verbatim>\<open>date.max\<close>, 9999-12-31, is day
  3652059. Comparison of dates is comparison of ordinals. The conversions between an
  ordinal and year, month, day follow the standard library's own arithmetic.
\<close>

type_synonym date = int

datatype py_error = OverflowError

definition MAXORDINAL :: int where
  "MAXORDINAL = 3652059"

definition DAYS_IN_MONTH :: "int list" where
  "DAYS_IN_MONTH = [-1, 31, 28, 31, 30, 31, 30, 31, 31, 30, 31, 30, 31]"

definition DAYS_BEFORE_MONTH :: "int list" where
  "DAYS_BEFORE_MONTH = [-1, 0, 31, 59, 90, 120, 151, 181, 212, 243, 273, 304, 334]"

definition is_leap :: "int \<Rightarrow> bool" where
  "is_leap year \<longleftrightarrow> year mod 4 = 0 \<and> (year mod 100 \<noteq> 0 \<or> year mod 400 = 0)"

definition days_before_year :: "int \<Rightarrow> int" where
  "days_before_year year = (let y = year - 1 in y * 365 + y div 4 - y div 100 + y div 400)"

definition days_in_month :: "int \<Rightarrow> int \<Rightarrow> int" where
  "days_in_month year month =
     (if month = 2 \<and> is_leap year then 29 else DAYS_IN_MONTH ! nat month)"

definition days_before_month :: "int \<Rightarrow> int \<Rightarrow> int" where
  "days_before_month year month =
     DAYS_BEFORE_MONTH ! nat month + (if month > 2 \<and> is_leap year then 1 else 0)"

definition ymd2ord :: "int \<Rightarrow> int \<Rightarrow> int \<Rightarrow> date" where
  "ymd2ord year month day = days_before_year year + days_before_month year month + day"

definition ord2ymd :: "date \<Rightarrow> int \<times> int \<times> int" where
  "ord2ymd n0 =
     (let n = n0 - 1;
          n400 = n div 146097; n = n mod 146097;
          n100 = n div 36524; n = n mod 36524;
          n4 = n div 1461; n = n mod 1461;
          n1 = n div 365; n = n mod 365;
          year = n400 * 400 + 1 + n100 * 100 + n4 * 4 + n1
      in if n1 = 4 \<or> n100 = 4 then (year - 1, 12, 31)
         else
           let leapyear = (n1 = 3 \<and> (n4 \<noteq> 24 \<or> n100 = 3));
               month = (n + 50) div 32;
               preceding = DAYS_BEFORE_MONTH ! nat month
                           + (if month > 2 \<and> leapyear then 1 else 0)
           in if preceding > n
              then let month' = month - 1;
                       preceding' = preceding - (DAYS_IN_MONTH ! nat month'
                                     + (if month' = 2 \<and> leapyear then 1 else 0))
                   in (year, month', n - preceding' + 1)
              else (year, month, n - preceding + 1))"

text \<open>Decimal digits, and \<^verbatim>\<open>%02d\<close> and \<^verbatim>\<open>%04d\<close> on the numbers that occur in a date.\<close>

definition digit_char :: "int \<Rightarrow> char" where
  "digit_char k = ''0123456789'' ! nat (k mod 10)"

definition fmt02 :: "int \<Rightarrow> string" where
  "fmt02 k = [digit_char (k div 10), digit_char k]"

definition fmt04 :: "int \<Rightarrow> string" where
  "fmt04 k = [digit_char (k div 1000), digit_char (k div 100), digit_char (k div 10), digit_char k]"

text \<open>\<^verbatim>\<open>date.isoformat()\<close>: \<^verbatim>\<open>"%04d-%02d-%02d" % (year, month, day)\<close>.\<close>

definition isoformat :: "date \<Rightarrow> string" where
  "isoformat d = (case ord2ymd d of (y, m, dd) \<Rightarrow> fmt04 y @ ''-'' @ fmt02 m @ ''-'' @ fmt02 dd)"

definition digit_val :: "char \<Rightarrow> int" where
  "digit_val c = int (of_char c) - 48"

text \<open>
  \<^verbatim>\<open>date.fromisoformat(s)\<close> is a function of the standard library, and the strings it
  accepts depend on the version of Python that runs the bot: up to version 3.10 only the
  extended format \<^verbatim>\<open>YYYY-MM-DD\<close>, from version 3.11 also the basic format
  \<^verbatim>\<open>YYYYMMDD\<close> and ISO week dates. The model therefore takes the parser from the
  environment of a call (the field \<open>fromisoformat\<close> of \<open>env\<close> below, \<open>None\<close> standing
  for the \<^verbatim>\<open>ValueError\<close>), and every property of the handlers is proved for every
  parser.

  \<open>fromisoformat_extended\<close> is the parser of the versions up to 3.10: it accepts the ten
  characters \<^verbatim>\<open>YYYY-MM-DD\<close> of a valid date (year 1 to 9999), which is what
  \<^verbatim>\<open>isoformat\<close> writes. The later versions give the same date for every string that it
  accepts. It is the parser of the example environment.
\<close>

fun fromisoformat_extended :: "string \<Rightarrow> date option" where
  "fromisoformat_extended [y1, y2, y3, y4, s1, m1, m2, s2, d1, d2] =
     (if s1 = CHR ''-'' \<and> s2 = CHR ''-'' \<and> list_all is_digit [y1, y2, y3, y4, m1, m2, d1, d2]
      then
        let year = 1000 * digit_val y1 + 100 * digit_val y2 + 10 * digit_val y3 + digit_val y4;
            month = 10 * digit_val m1 + digit_val m2;
            day = 10 * digit_val d1 + digit_val d2
        in if 1 \<le> year \<and> year \<le> 9999 \<and> 1 \<le> month \<and> month \<le> 12
              \<and> 1 \<le> day \<and> day \<le> days_in_month year month
           then Some (ymd2ord year month day) else None
      else None)"
| "fromisoformat_extended s = None"

text \<open>
  \<^verbatim>\<open>d + timedelta(days=n)\<close>. The constructor \<^verbatim>\<open>timedelta(days=n)\<close> raises
  \<^verbatim>\<open>OverflowError\<close> when \<open>n\<close> is beyond 999999999 in absolute value, and the sum raises
  \<^verbatim>\<open>OverflowError\<close> when it is not a date of the years 1 to 9999.
\<close>

definition timedelta :: "int \<Rightarrow> py_error + int" where
  "timedelta days = (if \<bar>days\<bar> \<le> 999999999 then Inr days else Inl OverflowError)"

definition date_add :: "date \<Rightarrow> int \<Rightarrow> py_error + date" where
  "date_add d days =
     (case timedelta days of
        Inl err \<Rightarrow> Inl err
      | Inr n \<Rightarrow> if 0 < d + n \<and> d + n \<le> MAXORDINAL then Inr (d + n) else Inl OverflowError)"

subsection \<open>License records and the document\<close>

text \<open>
  A license is a Python dictionary with the keys of the document encoding. A field is
  \<open>None\<close> when the key is absent from the dictionary. The values are typed as the
  encoding has them: strings, and an integer for \<^verbatim>\<open>max_users\<close>.
\<close>

record license =
  key :: "string option"
  cpf_cnpj :: "string option"
  customer :: "string option"
  email :: "string option"
  plan :: "string option"
  status :: "string option"
  expires :: "string option"
  max_users :: "int option"
  created_at :: "string option"

text \<open>\<^verbatim>\<open>d.get(k, default)\<close>.\<close>

definition get_or :: "'a option \<Rightarrow> 'a \<Rightarrow> 'a" where
  "get_or v dflt = (case v of None \<Rightarrow> dflt | Some x \<Rightarrow> x)"

text \<open>\<^verbatim>\<open>d.get(k)\<close> inside an f-string: an absent key is printed as \<^verbatim>\<open>None\<close>.\<close>

definition py_str :: "string option \<Rightarrow> string" where
  "py_str v = (case v of None \<Rightarrow> ''None'' | Some s \<Rightarrow> s)"

text \<open>The empty dictionary, the only dictionary that is false in a condition.\<close>

definition empty_dict :: license where
  "empty_dict = \<lparr>key = None, cpf_cnpj = None, customer = None, email = None, plan = None,
     status = None, expires = None, max_users = None, created_at = None\<rparr>"

definition truthy :: "license \<Rightarrow> bool" where
  "truthy lic \<longleftrightarrow> lic \<noteq> empty_dict"

text \<open>
  \<^verbatim>\<open>find_license_by_cpf\<close> returns a reference to the first dictionary of the list whose
  normalized \<^verbatim>\<open>cpf_cnpj\<close> equals the normalized argument. The callers assign to the
  dictionary through this reference, which changes the element of the list; the model
  returns the position of the element.
\<close>

fun find_license_by_cpf :: "string \<Rightarrow> license list \<Rightarrow> nat option" where
  "find_license_by_cpf cpf [] = None"
| "find_license_by_cpf cpf (lic # licenses) =
     (if normalize_cpf_cnpj (get_or (cpf_cnpj lic) '''') = normalize_cpf_cnpj cpf then Some 0
      else map_option Suc (find_license_by_cpf cpf licenses))"

subsection \<open>The remote store, the clock and the entropy source\<close>

text \<open>
  What a handler reads from outside during one call. \<open>github_get\<close> is what the body of
  the \<^verbatim>\<open>try\<close> in \<^verbatim>\<open>get_licenses\<close> meets: an exception (network, HTTP status, UTF-8,
  base64 or JSON decoding), or a decoded payload with the value under \<^verbatim>\<open>licenses\<close> (if
  present) and the value under \<^verbatim>\<open>sha\<close> (if present). \<open>github_put\<close> is what
  \<^verbatim>\<open>urlopen\<close> of the PUT does: it returns a response with a status, or raises
  \<^verbatim>\<open>HTTPError\<close> with a status, or raises \<^verbatim>\<open>URLError\<close>. \<open>today\<close> is \<^verbatim>\<open>date.today()\<close>
  (one value for the whole call), \<open>now\<close> is \<^verbatim>\<open>datetime.now().isoformat()\<close>,
  \<open>entropy\<close> is the sequence of the draws of the key generator, and \<open>fromisoformat\<close>
  is \<^verbatim>\<open>date.fromisoformat\<close> of the Python that runs the bot (\<open>None\<close> for its
  \<^verbatim>\<open>ValueError\<close>).
\<close>

datatype get_response = GetRaised | GetDecoded "license list option" "string option"

datatype put_response = PutStatus nat | PutHTTPError nat | PutURLError

record env =
  GITHUB_TOKEN :: string
  today :: date
  now :: string
  github_get :: get_response
  github_put :: put_response
  entropy :: "nat \<Rightarrow> nat"
  fromisoformat :: "string \<Rightarrow> date option"

text \<open>The body of the PUT request: commit message, the document, and the revision
  (\<^verbatim>\<open>sha\<close>) when there is one.\<close>

record put_request =
  req_message :: string
  req_licenses :: "license list"
  req_updated_at :: string
  req_sha :: "string option"

definition get_licenses :: "env \<Rightarrow> license list \<times> string option" where
  "get_licenses e =
     (if GITHUB_TOKEN e = '''' then ([], None)
      else case github_get e of
             GetRaised \<Rightarrow> ([], None)
           | GetDecoded ls sha \<Rightarrow> (get_or ls [], sha))"

text \<open>\<^verbatim>\<open>save_licenses\<close> returns a boolean; the model returns it together with the
  request that was sent, if one was.\<close>

definition save_licenses ::
  "env \<Rightarrow> license list \<Rightarrow> string option \<Rightarrow> string \<Rightarrow> bool \<times> put_request option" where
  "save_licenses e licenses sha message =
     (if GITHUB_TOKEN e = '''' then (False, None)
      else
        let body = \<lparr>req_message = message, req_licenses = licenses, req_updated_at = now e,
                    req_sha = (if sha \<noteq> None \<and> sha \<noteq> Some '''' then sha else None)\<rparr>
        in (case github_put e of
              PutStatus s \<Rightarrow> s = 200 \<or> s = 201
            | PutHTTPError s \<Rightarrow> False
            | PutURLError \<Rightarrow> False,
            Some body))"

subsection \<open>Command handlers\<close>

text \<open>
  A handler is modelled from the point where the authorization check, the check of the
  number of arguments and the conversion \<^verbatim>\<open>int(args[1])\<close> have passed. Its result is
  the reply sent to the operator (the kind of message and the values shown in it, not
  its text) and the PUT request it made, if any. A handler that raises has no outcome.
\<close>

datatype reply =
    CpfInvalido
  | MesesInvalido
  | JaExiste license
  | Ativada license int
  | ErroSalvar
  | NaoEncontrada string
  | Reativada license date date int
  | Renovada license date date int
  | Renovada_tg license date int
  | Cancelada license
  | Suspensa license
  | NenhumaLicenca
  | Listagem "license list"
  | NenhumaVencendo
  | Vencendo "(license \<times> int) list"

record outcome =
  reply :: reply
  request :: "put_request option"

text \<open>\<^verbatim>\<open>nome = " ".join(args[2:]) if len(args) > 2 else f"Cliente {cpf[-4:]}"\<close>.\<close>

definition nome_of :: "string list \<Rightarrow> string \<Rightarrow> string" where
  "nome_of rest cpf =
     (if rest \<noteq> [] then join '' '' rest else ''Cliente '' @ drop (length cpf - 4) cpf)"

definition nova_licenca :: "string \<Rightarrow> string \<Rightarrow> string \<Rightarrow> string \<Rightarrow> string \<Rightarrow> license" where
  "nova_licenca k cpf nome exp created =
     \<lparr>key = Some k, cpf_cnpj = Some cpf, customer = Some nome, email = Some '''',
      plan = Some ''profissional'', status = Some ''active'', expires = Some exp,
      max_users = Some 3, created_at = Some created\<rparr>"

text \<open>\<^verbatim>\<open>ativar\<close> of \<^verbatim>\<open>src/bot.py\<close>: \<open>arg0\<close> is \<^verbatim>\<open>args[0]\<close>, \<open>meses\<close> is
  \<^verbatim>\<open>int(args[1])\<close>, \<open>rest\<close> is \<^verbatim>\<open>args[2:]\<close>.\<close>

definition ativar :: "env \<Rightarrow> string \<Rightarrow> int \<Rightarrow> string list \<Rightarrow> py_error + outcome" where
  "ativar e arg0 meses rest =
     (let cpf = normalize_cpf_cnpj arg0 in
      if length cpf \<noteq> 11 \<and> length cpf \<noteq> 14 then Inr \<lparr>reply = CpfInvalido, request = None\<rparr>
      else if meses < 1 \<or> meses > 24 then Inr \<lparr>reply = MesesInvalido, request = None\<rparr>
      else
        let nome = nome_of rest cpf;
            (licenses, sha) = get_licenses e;
            existing = find_license_by_cpf cpf licenses
        in if existing \<noteq> None \<and> truthy (licenses ! the existing)
           then Inr \<lparr>reply = JaExiste (licenses ! the existing), request = None\<rparr>
           else
             let k = generate_license_key (entropy e) in
             case date_add (today e) (30 * meses) of
               Inl err \<Rightarrow> Inl err
             | Inr d \<Rightarrow>
                 let nova = nova_licenca k cpf nome (isoformat d) (now e);
                     (ok, rq) = save_licenses e (licenses @ [nova]) sha (''Ativar: '' @ nome)
                 in Inr \<lparr>reply = (if ok then Ativada nova meses else ErroSalvar), request = rq\<rparr>)"

text \<open>\<^verbatim>\<open>ativar\<close> of \<^verbatim>\<open>src/telegram-bot/bot.py\<close>: the same steps, another commit message.\<close>

definition ativar_tg :: "env \<Rightarrow> string \<Rightarrow> int \<Rightarrow> string list \<Rightarrow> py_error + outcome" where
  "ativar_tg e arg0 meses rest =
     (let cpf = normalize_cpf_cnpj arg0 in
      if length cpf \<noteq> 11 \<and> length cpf \<noteq> 14 then Inr \<lparr>reply = CpfInvalido, request = None\<rparr>
      else if meses < 1 \<or> meses > 24 then Inr \<lparr>reply = MesesInvalido, request = None\<rparr>
      else
        let nome = nome_of rest cpf;
            (licenses, sha) = get_licenses e;
            existing = find_license_by_cpf cpf licenses
        in if existing \<noteq> None \<and> truthy (licenses ! the existing)
           then Inr \<lparr>reply = JaExiste (licenses ! the existing), request = None\<rparr>
           else
             let k = generate_license_key (entropy e) in
             case date_add (today e) (30 * meses) of
               Inl err \<Rightarrow> Inl err
             | Inr d \<Rightarrow>
                 let nova = nova_licenca k cpf nome (isoformat d) (now e);
                     (ok, rq) = save_licenses e (licenses @ [nova]) sha
                                  (''Ativar licenca: '' @ nome)
                 in Inr \<lparr>reply = (if ok then Ativada nova meses else ErroSalvar), request = rq\<rparr>)"

text \<open>The local values of \<^verbatim>\<open>renovar\<close> in \<^verbatim>\<open>src/bot.py\<close>. The handler parses
  \<^verbatim>\<open>lic.get("expires", "")\<close>; when the parser raises \<^verbatim>\<open>ValueError\<close>, it takes today.\<close>

definition current_expires :: "env \<Rightarrow> license \<Rightarrow> date" where
  "current_expires e lic =
     (case fromisoformat e (get_or (expires lic) '''') of Some d \<Rightarrow> d | None \<Rightarrow> today e)"

definition is_cancelled :: "license \<Rightarrow> bool" where
  "is_cancelled lic \<longleftrightarrow> get_or (status lic) '''' = ''cancelled''"

definition is_key_empty :: "license \<Rightarrow> bool" where
  "is_key_empty lic \<longleftrightarrow>
     (let current_key = get_or (key lic) '''' in current_key = '''' \<or> strip current_key = '''')"

definition is_expired :: "env \<Rightarrow> license \<Rightarrow> bool" where
  "is_expired e lic \<longleftrightarrow> current_expires e lic \<le> today e"

definition should_start_from_zero :: "env \<Rightarrow> license \<Rightarrow> bool" where
  "should_start_from_zero e lic \<longleftrightarrow> is_cancelled lic \<or> is_key_empty lic \<or> is_expired e lic"

definition renovar :: "env \<Rightarrow> string \<Rightarrow> int \<Rightarrow> py_error + outcome" where
  "renovar e arg0 meses =
     (let cpf = normalize_cpf_cnpj arg0;
          (licenses, sha) = get_licenses e
      in case find_license_by_cpf cpf licenses of
           None \<Rightarrow> Inr \<lparr>reply = NaoEncontrada cpf, request = None\<rparr>
         | Some i \<Rightarrow>
             let lic = licenses ! i in
             if \<not> truthy lic then Inr \<lparr>reply = NaoEncontrada cpf, request = None\<rparr>
             else
               let zero = should_start_from_zero e lic;
                   base_date = (if zero then today e else current_expires e lic);
                   lic1 = (if zero then lic\<lparr>key := Some (generate_license_key (entropy e))\<rparr>
                           else lic)
               in case date_add base_date (30 * meses) of
                    Inl err \<Rightarrow> Inl err
                  | Inr new_expires \<Rightarrow>
                      let lic2 = lic1\<lparr>expires := Some (isoformat new_expires),
                                      status := Some ''active''\<rparr>;
                          (ok, rq) = save_licenses e (licenses[i := lic2]) sha
                                       (''Renovar: '' @ py_str (customer lic2))
                      in Inr \<lparr>reply =
                                (if \<not> ok then ErroSalvar
                                 else if zero then Reativada lic2 base_date new_expires meses
                                 else Renovada lic2 base_date new_expires meses),
                              request = rq\<rparr>)"

text \<open>\<^verbatim>\<open>renovar\<close> of \<^verbatim>\<open>src/telegram-bot/bot.py\<close>. Here \<^verbatim>\<open>lic["expires"]\<close> raises
  \<^verbatim>\<open>KeyError\<close> when the key is absent; both exceptions are caught.\<close>

definition current_expires_tg :: "env \<Rightarrow> license \<Rightarrow> date" where
  "current_expires_tg e lic =
     (case expires lic of
        None \<Rightarrow> today e
      | Some s \<Rightarrow> (case fromisoformat e s of Some d \<Rightarrow> d | None \<Rightarrow> today e))"

definition renovar_tg :: "env \<Rightarrow> string \<Rightarrow> int \<Rightarrow> py_error + outcome" where
  "renovar_tg e arg0 meses =
     (let cpf = normalize_cpf_cnpj arg0;
          (licenses, sha) = get_licenses e
      in case find_license_by_cpf cpf licenses of
           None \<Rightarrow> Inr \<lparr>reply = NaoEncontrada cpf, request = None\<rparr>
         | Some i \<Rightarrow>
             let lic = licenses ! i in
             if \<not> truthy lic then Inr \<lparr>reply = NaoEncontrada cpf, request = None\<rparr>
             else
               let base_date = max (current_expires_tg e lic) (today e) in
               case date_add base_date (30 * meses) of
                 Inl err \<Rightarrow> Inl err
               | Inr new_expires \<Rightarrow>
                   let lic2 = lic\<lparr>expires := Some (isoformat new_expires),
                                  status := Some ''active''\<rparr>;
                       (ok, rq) = save_licenses e (licenses[i := lic2]) sha
                                    (''Renovar licenca: '' @ py_str (customer lic2))
                   in Inr \<lparr>reply = (if ok then Renovada_tg lic2 new_expires meses else ErroSalvar),
                           request = rq\<rparr>)"

text \<open>\<^verbatim>\<open>cancelar\<close> of \<^verbatim>\<open>src/bot.py\<close>.\<close>

definition cancelar :: "env \<Rightarrow> string \<Rightarrow> outcome" where
  "cancelar e arg0 =
     (let cpf = normalize_cpf_cnpj arg0;
          (licenses, sha) = get_licenses e
      in case find_license_by_cpf cpf licenses of
           None \<Rightarrow> \<lparr>reply = NaoEncontrada cpf, request = None\<rparr>
         | Some i \<Rightarrow>
             let lic = licenses ! i in
             if \<not> truthy lic then \<lparr>reply = NaoEncontrada cpf, request = None\<rparr>
             else
               let lic2 = lic\<lparr>status := Some ''cancelled'',
                              expires := Some (isoformat (today e)),
                              key := Some ''''\<rparr>;
                   (ok, rq) = save_licenses e (licenses[i := lic2]) sha
                                (''Cancelar: '' @ py_str (customer lic2))
               in \<lparr>reply = (if ok then Cancelada lic2 else ErroSalvar), request = rq\<rparr>)"

text \<open>\<^verbatim>\<open>cancelar\<close> of \<^verbatim>\<open>src/telegram-bot/bot.py\<close>: only the status is assigned.\<close>

definition cancelar_tg :: "env \<Rightarrow> string \<Rightarrow> outcome" where
  "cancelar_tg e arg0 =
     (let cpf = normalize_cpf_cnpj arg0;
          (licenses, sha) = get_licenses e
      in case find_license_by_cpf cpf licenses of
           None \<Rightarrow> \<lparr>reply = NaoEncontrada cpf, request = None\<rparr>
         | Some i \<Rightarrow>
             let lic = licenses ! i in
             if \<not> truthy lic then \<lparr>reply = NaoEncontrada cpf, request = None\<rparr>
             else
               let lic2 = lic\<lparr>status := Some ''cancelled''\<rparr>;
                   (ok, rq) = save_licenses e (licenses[i := lic2]) sha
                                (''Cancelar licenca: '' @ py_str (customer lic2))
               in \<lparr>reply = (if ok then Cancelada lic2 else ErroSalvar), request = rq\<rparr>)"

text \<open>\<^verbatim>\<open>suspender\<close>, which only \<^verbatim>\<open>src/telegram-bot/bot.py\<close> has.\<close>

definition suspender_tg :: "env \<Rightarrow> string \<Rightarrow> outcome" where
  "suspender_tg e arg0 =
     (let cpf = normalize_cpf_cnpj arg0;
          (licenses, sha) = get_licenses e
      in case find_license_by_cpf cpf licenses of
           None \<Rightarrow> \<lparr>reply = NaoEncontrada cpf, request = None\<rparr>
         | Some i \<Rightarrow>
             let lic = licenses ! i in
             if \<not> truthy lic then \<lparr>reply = NaoEncontrada cpf, request = None\<rparr>
             else
               let lic2 = lic\<lparr>status := Some ''suspended''\<rparr>;
                   (ok, rq) = save_licenses e (licenses[i := lic2]) sha
                                (''Suspender licenca: '' @ py_str (customer lic2))
               in \<lparr>reply = (if ok then Suspensa lic2 else ErroSalvar), request = rq\<rparr>)"

text \<open>
  \<^verbatim>\<open>listar\<close> of \<^verbatim>\<open>src/telegram-bot/bot.py\<close>. The key of the sort is the pair of the
  rank of the stored status (9 for a status that is not in the table, also for an absent
  one) and the stored \<^verbatim>\<open>expires\<close> string. Python compares the pairs lexicographically
  and the strings by code points, and \<^verbatim>\<open>list.sort\<close> is stable, as \<^const>\<open>sort_key\<close> is.
\<close>

definition status_order :: "string \<Rightarrow> int option" where
  "status_order = map_of [(''active'', 0), (''suspended'', 1), (''expired'', 2), (''cancelled'', 3)]"

definition sort_key_lic :: "license \<Rightarrow> int \<times> string" where
  "sort_key_lic lic =
     (get_or (status_order (get_or (status lic) '''')) 9, get_or (expires lic) '''')"

definition listar_tg :: "env \<Rightarrow> outcome" where
  "listar_tg e =
     (let (licenses, _) = get_licenses e in
      if licenses = [] then \<lparr>reply = NenhumaLicenca, request = None\<rparr>
      else \<lparr>reply = Listagem (sort_key sort_key_lic licenses), request = None\<rparr>)"

text \<open>
  \<^verbatim>\<open>vencendo\<close> of \<^verbatim>\<open>src/telegram-bot/bot.py\<close>. The loop collects, in the order of the
  document, the licenses whose status is \<^verbatim>\<open>active\<close> and whose \<^verbatim>\<open>expires\<close> is a date not
  after \<open>limite\<close>, each with its number of days from today; a license whose \<^verbatim>\<open>expires\<close>
  is not a date is skipped.
\<close>

fun proximas ::
  "(string \<Rightarrow> date option) \<Rightarrow> date \<Rightarrow> date \<Rightarrow> license list \<Rightarrow> (license \<times> int) list" where
  "proximas parse hoje limite [] = []"
| "proximas parse hoje limite (lic # licenses) =
     (if status lic \<noteq> Some ''active'' then proximas parse hoje limite licenses
      else case parse (get_or (expires lic) '''') of
             None \<Rightarrow> proximas parse hoje limite licenses
           | Some d \<Rightarrow>
               if d \<le> limite then (lic, d - hoje) # proximas parse hoje limite licenses
               else proximas parse hoje limite licenses)"

definition vencendo_tg :: "env \<Rightarrow> py_error + outcome" where
  "vencendo_tg e =
     (let (licenses, _) = get_licenses e;
          hoje = today e
      in case date_add hoje 7 of
           Inl err \<Rightarrow> Inl err
         | Inr limite \<Rightarrow>
             let found = proximas (fromisoformat e) hoje limite licenses in
             if found = [] then Inr \<lparr>reply = NenhumaVencendo, request = None\<rparr>
             else Inr \<lparr>reply = Vencendo (sort_key snd found), request = None\<rparr>)"

subsection \<open>Example values\<close>

text \<open>The record of the document encoding's example, and an environment in which the
  fetch returns the given records, it is 2025-02-01 (day 739283), and the store accepts
  the write.\<close>

definition lic_ativa :: license where
  "lic_ativa = nova_licenca ''XK3F-9MPQ-7RTV-2WZY'' ''12345678901'' ''Cliente 8901''
     ''2025-03-01'' ''2025-02-01T12:00:00''"

definition env_of :: "license list \<Rightarrow> env" where
  "env_of ls = \<lparr>GITHUB_TOKEN = ''ghp_token'', today = 739283, now = ''2025-02-01T12:00:00'',
     github_get = GetDecoded (Some ls) (Some ''3d21ec53''), github_put = PutStatus 200,
     entropy = (\<lambda>i. 7 * i + 3), fromisoformat = fromisoformat_extended\<rparr>"

text \<open>The sum \<^verbatim>\<open>d + timedelta(days=n)\<close> is a date: neither the constructor nor the
  addition raises \<^verbatim>\<open>OverflowError\<close>.\<close>

definition representable :: "date \<Rightarrow> int \<Rightarrow> bool" where
  "representable d n \<longleftrightarrow> \<bar>n\<bar> \<le> 999999999 \<and> 0 < d + n \<and> d + n \<le> MAXORDINAL"

text \<open>The example record after a cancellation that kept its key and date, and the
  example record with a key that is one space.\<close>

definition lic_cancelada :: license where
  "lic_cancelada = lic_ativa\<lparr>status := Some ''cancelled''\<rparr>"

definition lic_chave_branca :: license where
  "lic_chave_branca = lic_ativa\<lparr>key := Some '' ''\<rparr>"

text \<open>Further example records: active and expired since 2025-01-31; suspended, expiring
  on 2025-02-02; active, expiring on 2025-02-05 and on 2025-02-02.\<close>

definition lic_vencida :: license where
  "lic_vencida = lic_ativa\<lparr>expires := Some ''2025-01-31''\<rparr>"

definition lic_suspensa :: license where
  "lic_suspensa = lic_ativa\<lparr>status := Some ''suspended'', expires := Some ''2025-02-02''\<rparr>"

definition lic_vence_5 :: license where
  "lic_vence_5 = lic_ativa\<lparr>expires := Some ''2025-02-05''\<rparr>"

definition lic_vence_2 :: license where
  "lic_vence_2 = lic_ativa\<lparr>expires := Some ''2025-02-02''\<rparr>"

text \<open>
  The rank of the listing as the specification words it: active 0, suspended 1, derived
  expired 2 (status active and the expiry date before today, with the clock and the
  parser of the environment), cancelled 3. The specification names no other status; 9 is
  the code's value for them.
\<close>

definition spec_status_rank :: "env \<Rightarrow> license \<Rightarrow> int" where
  "spec_status_rank e lic =
     (if status lic = Some ''active'' then
        (case fromisoformat e (get_or (expires lic) '''') of
           Some d \<Rightarrow> if d < today e then 2 else 0
         | None \<Rightarrow> 0)
      else if status lic = Some ''suspended'' then 1
      else if status lic = Some ''cancelled'' then 3
      else 9)"

section \<open>Properties\<close>


subsection \<open>Key generator\<close>

lemma length_chars: "length chars = 31"
  by (simp add: chars_def)

lemma distinct_chars: "distinct chars"
  by (simp add: chars_def)

lemma secrets_choice_chars: "secrets_choice chars r \<in> set chars"
  unfolding secrets_choice_def by (rule nth_mem) (simp add: length_chars)

lemma generate_license_key_unfold:
  "generate_license_key rnd =
     key_part rnd 0 @ ''-'' @ key_part rnd 1 @ ''-'' @ key_part rnd 2 @ ''-'' @ key_part rnd 3"
proof -
  have "[0..<4] = [0, 1, 2, 3::nat]"
    by (simp add: upt_rec)
  then show ?thesis
    by (simp add: generate_license_key_def)
qed

lemma key_part_unfold:
  "key_part rnd g =
     [secrets_choice chars (rnd (4 * g)), secrets_choice chars (rnd (4 * g + 1)),
      secrets_choice chars (rnd (4 * g + 2)), secrets_choice chars (rnd (4 * g + 3))]"
proof -
  have "[0..<4] = [0, 1, 2, 3::nat]"
    by (simp add: upt_rec)
  then show ?thesis
    by (simp add: key_part_def)
qed

lemma key_part_length: "length (key_part rnd g) = 4"
  by (simp add: key_part_def)

lemma key_part_alphabet: "set (key_part rnd g) \<subseteq> set chars"
  by (auto simp: key_part_def secrets_choice_chars)

lemma chars_unambiguous: "set chars \<inter> set ''01IOL'' = {}"
  by (simp add: chars_def)

text \<open>Every symbol of the alphabet can be drawn.\<close>

lemma every_symbol_possible:
  assumes "c \<in> set chars"
  shows "\<exists>r. secrets_choice chars r = c"
proof -
  from assms obtain i where "i < length chars" "chars ! i = c"
    by (auto simp: in_set_conv_nth)
  then have "secrets_choice chars i = c"
    by (simp add: secrets_choice_def)
  then show ?thesis ..
qed

lemma generate_license_key_explicit:
  "generate_license_key rnd =
     [secrets_choice chars (rnd 0), secrets_choice chars (rnd 1),
      secrets_choice chars (rnd 2), secrets_choice chars (rnd 3), CHR ''-'',
      secrets_choice chars (rnd 4), secrets_choice chars (rnd 5),
      secrets_choice chars (rnd 6), secrets_choice chars (rnd 7), CHR ''-'',
      secrets_choice chars (rnd 8), secrets_choice chars (rnd 9),
      secrets_choice chars (rnd 10), secrets_choice chars (rnd 11), CHR ''-'',
      secrets_choice chars (rnd 12), secrets_choice chars (rnd 13),
      secrets_choice chars (rnd 14), secrets_choice chars (rnd 15)]"
  by (simp add: generate_license_key_unfold key_part_unfold numeral_2_eq_2 numeral_3_eq_3)

lemma upt_16: "[0..<16] = [0, 1, 2, 3, 4, 5, 6, 7, 8, 9, 10, 11, 12, 13, 14, 15::nat]"
  by (simp add: upt_rec)



text \<open>The character of every position of a group is the symbol that the draw of that
  position selects.\<close>

lemma generate_license_key_nth:
  assumes "j < 16"
  shows "generate_license_key rnd ! (j + j div 4) = chars ! (rnd j mod 31)"
proof -
  from assms have "j \<in> set [0..<16]"
    by simp
  then have "j \<in> {0, 1, 2, 3, 4, 5, 6, 7, 8, 9, 10, 11, 12, 13, 14, 15}"
    by (simp only: upt_16) simp
  then show ?thesis
    by (auto simp: generate_license_key_explicit secrets_choice_def length_chars)
qed

lemma generate_license_key_hyphens:
  "generate_license_key rnd ! 4 = CHR ''-''" "generate_license_key rnd ! 9 = CHR ''-''"
  "generate_license_key rnd ! 14 = CHR ''-''"
  by (simp_all add: generate_license_key_explicit)

text \<open>Distinct draws below 31 select distinct symbols, and every symbol is selected by a
  draw below 31.\<close>

lemma chars_bij: "bij_betw (\<lambda>r. chars ! r) {..<31} (set chars)"
proof -
  have "bij_betw (\<lambda>r. chars ! r) {..<length chars} (set chars)"
    by (rule bij_betw_nth [OF distinct_chars]) simp_all
  then show ?thesis
    by (simp only: length_chars)
qed

text \<open>Two sequences of 16 draws below 31 that give the same key are the same sequence.\<close>

lemma generate_license_key_inj:
  "inj_on (\<lambda>ds. generate_license_key (\<lambda>j. ds ! j)) {ds. length ds = 16 \<and> set ds \<subseteq> {..<31}}"
proof (rule inj_onI)
  fix ds ds' :: "nat list"
  assume d: "ds \<in> {ds. length ds = 16 \<and> set ds \<subseteq> {..<31}}"
    and d': "ds' \<in> {ds. length ds = 16 \<and> set ds \<subseteq> {..<31}}"
    and eq: "generate_license_key (\<lambda>j. ds ! j) = generate_license_key (\<lambda>j. ds' ! j)"
  show "ds = ds'"
  proof (rule nth_equalityI)
    show "length ds = length ds'"
      using d d' by simp
  next
    fix j
    assume "j < length ds"
    with d have j: "j < 16"
      by simp
    with d d' have r: "ds ! j < 31" "ds' ! j < 31"
      by (auto simp: subset_iff)
    from eq have "generate_license_key (\<lambda>j. ds ! j) ! (j + j div 4) =
        generate_license_key (\<lambda>j. ds' ! j) ! (j + j div 4)"
      by simp
    then have "chars ! (ds ! j) = chars ! (ds' ! j)"
      using r by (simp add: generate_license_key_nth [OF j])
    with r show "ds ! j = ds' ! j"
      using distinct_chars by (simp add: nth_eq_iff_index_eq length_chars)
  qed
qed

text \<open>Every string of four groups of four symbols of the alphabet, joined by hyphens, is
  the key of a sequence of 16 draws below 31.\<close>

lemma length_4_explicit:
  assumes "length p = 4"
  obtains a b c d where "p = [a, b, c, d]"
  using assms by (auto simp: eval_nat_numeral length_Suc_conv)

lemma generate_license_key_surj:
  assumes "length p0 = 4" "length p1 = 4" "length p2 = 4" "length p3 = 4"
    and "set p0 \<subseteq> set chars" "set p1 \<subseteq> set chars" "set p2 \<subseteq> set chars" "set p3 \<subseteq> set chars"
  shows "\<exists>ds. length ds = 16 \<and> set ds \<subseteq> {..<31}
           \<and> generate_license_key (\<lambda>j. ds ! j) = p0 @ ''-'' @ p1 @ ''-'' @ p2 @ ''-'' @ p3"
proof -
  have "\<forall>c \<in> set chars. \<exists>r<31. chars ! r = c"
    using length_chars by (auto simp: in_set_conv_nth)
  then obtain g where g: "\<And>c. c \<in> set chars \<Longrightarrow> g c < 31 \<and> chars ! (g c) = c"
    by metis
  have sel: "\<And>c. c \<in> set chars \<Longrightarrow> secrets_choice chars (g c) = c"
    using g by (simp add: secrets_choice_def length_chars)
  from assms(1) obtain a0 a1 a2 a3 where p0: "p0 = [a0, a1, a2, a3]"
    by (rule length_4_explicit)
  from assms(2) obtain b0 b1 b2 b3 where p1: "p1 = [b0, b1, b2, b3]"
    by (rule length_4_explicit)
  from assms(3) obtain c0 c1 c2 c3 where p2: "p2 = [c0, c1, c2, c3]"
    by (rule length_4_explicit)
  from assms(4) obtain d0 d1 d2 d3 where p3: "p3 = [d0, d1, d2, d3]"
    by (rule length_4_explicit)
  let ?ds = "map g (p0 @ p1 @ p2 @ p3)"
  have len: "length ?ds = 16"
    using assms(1-4) by simp
  have rng: "set ?ds \<subseteq> {..<31}"
    using assms(5-8) g by auto
  have mem: "a0 \<in> set chars" "a1 \<in> set chars" "a2 \<in> set chars" "a3 \<in> set chars"
    "b0 \<in> set chars" "b1 \<in> set chars" "b2 \<in> set chars" "b3 \<in> set chars"
    "c0 \<in> set chars" "c1 \<in> set chars" "c2 \<in> set chars" "c3 \<in> set chars"
    "d0 \<in> set chars" "d1 \<in> set chars" "d2 \<in> set chars" "d3 \<in> set chars"
    using assms(5-8) by (simp_all add: p0 p1 p2 p3)
  have "generate_license_key (\<lambda>j. ?ds ! j) = p0 @ ''-'' @ p1 @ ''-'' @ p2 @ ''-'' @ p3"
    by (simp only: generate_license_key_explicit) (simp add: p0 p1 p2 p3 sel mem)
  with len rng show ?thesis
    by blast
qed

text \<open>Counting the sequences of 16 draws below 31: there are \<open>31 ^ 16\<close> of them, and
  \<open>31 ^ 15\<close> of them have a given draw at a given position.\<close>

lemma card_draws: "card {ds :: nat list. length ds = n \<and> set ds \<subseteq> {..<31}} = 31 ^ n"
proof -
  have "card {ds :: nat list. set ds \<subseteq> {..<31} \<and> length ds = n} = card {..<31::nat} ^ n"
    by (rule card_lists_length_eq) simp
  then show ?thesis
    by (simp add: conj_commute)
qed

lemma card_draws_fixed:
  assumes "j < 16" and "r < 31"
  shows "card {ds :: nat list. length ds = 16 \<and> set ds \<subseteq> {..<31} \<and> ds ! j = r} = 31 ^ 15"
proof -
  let ?E = "{es :: nat list. length es = 15 \<and> set es \<subseteq> {..<31}}"
  let ?S = "{ds :: nat list. length ds = 16 \<and> set ds \<subseteq> {..<31} \<and> ds ! j = r}"
  let ?g = "\<lambda>es. take j es @ r # drop j es"
  have inj: "inj_on ?g ?E"
  proof (rule inj_onI)
    fix es es' :: "nat list"
    assume e: "es \<in> ?E" "es' \<in> ?E" and eq: "?g es = ?g es'"
    from e assms(1) have "length (take j es) = length (take j es')"
      by simp
    with eq have "take j es = take j es'" "drop j es = drop j es'"
      by simp_all
    then show "es = es'"
      by (metis append_take_drop_id)
  qed
  have img: "?g ` ?E = ?S"
  proof (intro equalityI subsetI)
    fix ds
    assume "ds \<in> ?g ` ?E"
    then obtain es where es: "es \<in> ?E" "ds = ?g es"
      by blast
    from es assms have "length ds = 16" "ds ! j = r"
      by (simp_all add: nth_append)
    moreover from es assms(2) have "set ds \<subseteq> {..<31}"
      using set_take_subset [of j es] set_drop_subset [of j es] by auto
    ultimately show "ds \<in> ?S"
      by simp
  next
    fix ds
    assume d: "ds \<in> ?S"
    let ?es = "take j ds @ drop (Suc j) ds"
    from d assms(1) have "length ?es = 15"
      by simp
    moreover from d have "set ?es \<subseteq> {..<31}"
      using set_take_subset [of j ds] set_drop_subset [of "Suc j" ds] by auto
    moreover from d assms(1) have "?g ?es = ds"
      using id_take_nth_drop [of j ds] by simp
    ultimately show "ds \<in> ?g ` ?E"
      by (metis (mono_tags, lifting) image_eqI mem_Collect_eq)
  qed
  have "card ?S = card ?E"
    using card_image [OF inj] img by simp
  then show ?thesis
    by (simp add: card_draws)
qed

text \<open>A given symbol stands at a given position of the key for \<open>31 ^ 15\<close> of the
  \<open>31 ^ 16\<close> sequences of draws, and a given key is the key of exactly one sequence.\<close>

lemma card_symbol_at:
  assumes "j < 16" and "c \<in> set chars"
  shows "card {ds :: nat list. length ds = 16 \<and> set ds \<subseteq> {..<31}
                 \<and> generate_license_key (\<lambda>i. ds ! i) ! (j + j div 4) = c} = 31 ^ 15"
proof -
  from assms(2) obtain r where r: "r < 31" "chars ! r = c"
    using length_chars by (auto simp: in_set_conv_nth)
  have "\<And>ds :: nat list. length ds = 16 \<and> set ds \<subseteq> {..<31} \<Longrightarrow>
          generate_license_key (\<lambda>i. ds ! i) ! (j + j div 4) = c \<longleftrightarrow> ds ! j = r"
  proof -
    fix ds :: "nat list"
    assume d: "length ds = 16 \<and> set ds \<subseteq> {..<31}"
    with assms(1) have "ds ! j < 31"
      by (auto simp: subset_iff)
    then have "chars ! (ds ! j) = chars ! r \<longleftrightarrow> ds ! j = r"
      using r(1) distinct_chars by (simp add: nth_eq_iff_index_eq length_chars)
    with \<open>ds ! j < 31\<close> show "generate_license_key (\<lambda>i. ds ! i) ! (j + j div 4) = c \<longleftrightarrow> ds ! j = r"
      by (simp add: generate_license_key_nth [OF assms(1)] r(2))
  qed
  then have "{ds :: nat list. length ds = 16 \<and> set ds \<subseteq> {..<31}
                 \<and> generate_license_key (\<lambda>i. ds ! i) ! (j + j div 4) = c}
             = {ds. length ds = 16 \<and> set ds \<subseteq> {..<31} \<and> ds ! j = r}"
    by blast
  then show ?thesis
    by (simp only: card_draws_fixed [OF assms(1) r(1)])
qed

lemma card_key:
  assumes "length ds0 = 16" and "set ds0 \<subseteq> {..<31}"
  shows "card {ds :: nat list. length ds = 16 \<and> set ds \<subseteq> {..<31}
                 \<and> generate_license_key (\<lambda>i. ds ! i) = generate_license_key (\<lambda>i. ds0 ! i)} = 1"
proof -
  have "{ds :: nat list. length ds = 16 \<and> set ds \<subseteq> {..<31}
           \<and> generate_license_key (\<lambda>i. ds ! i) = generate_license_key (\<lambda>i. ds0 ! i)} = {ds0}"
    using assms generate_license_key_inj by (auto dest: inj_onD)
  then show ?thesis
    by simp
qed

text \<open>
  Claim C7, as the code has it. For every sequence of draws, \<open>generate_license_key\<close>
  yields a string of 19 characters: four groups of four characters joined by hyphens,
  every character of a group taken from the alphabet \<open>chars\<close>. The alphabet has 31
  symbols (not 32): the capital letters without I, L and O, and the digits 2 to 9. So no
  key contains any of 0, 1, I, O (nor L).

  Each of the 16 characters is drawn on its own: the character of position \<open>j\<close> is the
  symbol that draw \<open>j\<close>, and no other draw, selects. A draw is a number below 31 (the
  result of \<^verbatim>\<open>randbelow(31)\<close>); distinct draws select distinct symbols and every symbol
  is selected by a draw. Taken together, the \<open>31 ^ 16\<close> sequences of 16 draws and the
  keys of four groups of four symbols correspond one to one.

  In numbers: of the \<open>31 ^ 16\<close> sequences of draws, which are equally likely when the
  draws are independent and uniform as \<^verbatim>\<open>secrets.choice\<close> makes them, \<open>31 ^ 15\<close> put a
  given symbol at a given position (one in 31: every character is uniform over the
  alphabet), and exactly one gives a given key (one in \<open>31 ^ 16\<close>, the product of the 16
  shares: the characters are independent). The distribution of the entropy source itself
  is an assumption, outside the model.
\<close>

theorem generate_license_key_format:
  "length (generate_license_key rnd) = 19
   \<and> (\<exists>p0 p1 p2 p3.
         generate_license_key rnd = p0 @ ''-'' @ p1 @ ''-'' @ p2 @ ''-'' @ p3
         \<and> (\<forall>p \<in> set [p0, p1, p2, p3]. length p = 4 \<and> set p \<subseteq> set chars))
   \<and> (\<forall>j<16. generate_license_key rnd ! (j + j div 4) = chars ! (rnd j mod 31))
   \<and> card (set chars) = 31
   \<and> bij_betw (\<lambda>r. chars ! r) {..<31} (set chars)
   \<and> bij_betw (\<lambda>ds. generate_license_key (\<lambda>j. ds ! j))
        {ds. length ds = 16 \<and> set ds \<subseteq> {..<31}}
        {k. \<exists>p0 p1 p2 p3. k = p0 @ ''-'' @ p1 @ ''-'' @ p2 @ ''-'' @ p3
              \<and> (\<forall>p \<in> set [p0, p1, p2, p3]. length p = 4 \<and> set p \<subseteq> set chars)}
   \<and> card {ds :: nat list. length ds = 16 \<and> set ds \<subseteq> {..<31}} = 31 ^ 16
   \<and> (\<forall>j<16. \<forall>c \<in> set chars.
         card {ds :: nat list. length ds = 16 \<and> set ds \<subseteq> {..<31}
                \<and> generate_license_key (\<lambda>i. ds ! i) ! (j + j div 4) = c} = 31 ^ 15)
   \<and> (\<forall>ds0 :: nat list. length ds0 = 16 \<and> set ds0 \<subseteq> {..<31} \<longrightarrow>
         card {ds :: nat list. length ds = 16 \<and> set ds \<subseteq> {..<31}
                \<and> generate_license_key (\<lambda>i. ds ! i) = generate_license_key (\<lambda>i. ds0 ! i)} = 1)
   \<and> set chars \<inter> set ''01IOL'' = {}
   \<and> set (generate_license_key rnd) \<inter> set ''01IOL'' = {}"
proof -
  let ?k = "generate_license_key rnd"
  let ?D = "{ds :: nat list. length ds = 16 \<and> set ds \<subseteq> {..<31}}"
  let ?K = "{k. \<exists>p0 p1 p2 p3. k = p0 @ ''-'' @ p1 @ ''-'' @ p2 @ ''-'' @ p3
              \<and> (\<forall>p \<in> set [p0, p1, p2, p3]. length p = 4 \<and> set p \<subseteq> set chars)}"
  have len: "length ?k = 19"
    by (simp add: generate_license_key_unfold key_part_length)
  have parts: "\<And>rnd. \<exists>p0 p1 p2 p3.
         generate_license_key rnd = p0 @ ''-'' @ p1 @ ''-'' @ p2 @ ''-'' @ p3
         \<and> (\<forall>p \<in> set [p0, p1, p2, p3]. length p = 4 \<and> set p \<subseteq> set chars)"
    using generate_license_key_unfold key_part_length key_part_alphabet
    by (intro exI [of _ "key_part _ _"]) simp
  have own: "\<forall>j<16. ?k ! (j + j div 4) = chars ! (rnd j mod 31)"
    by (simp add: generate_license_key_nth)
  have card: "card (set chars) = 31"
    using distinct_card [OF distinct_chars] length_chars by simp
  have img: "(\<lambda>ds. generate_license_key (\<lambda>j. ds ! j)) ` ?D = ?K"
  proof (intro equalityI subsetI)
    fix k
    assume "k \<in> (\<lambda>ds. generate_license_key (\<lambda>j. ds ! j)) ` ?D"
    then show "k \<in> ?K"
      using parts by auto
  next
    fix k
    assume "k \<in> ?K"
    then obtain p0 p1 p2 p3 where k: "k = p0 @ ''-'' @ p1 @ ''-'' @ p2 @ ''-'' @ p3"
      and p: "length p0 = 4" "length p1 = 4" "length p2 = 4" "length p3 = 4"
        "set p0 \<subseteq> set chars" "set p1 \<subseteq> set chars" "set p2 \<subseteq> set chars" "set p3 \<subseteq> set chars"
      by auto
    from generate_license_key_surj [OF p] obtain ds where
      "ds \<in> ?D" "generate_license_key (\<lambda>j. ds ! j) = p0 @ ''-'' @ p1 @ ''-'' @ p2 @ ''-'' @ p3"
      by blast
    with k show "k \<in> (\<lambda>ds. generate_license_key (\<lambda>j. ds ! j)) ` ?D"
      by (metis (mono_tags, lifting) image_eqI)
  qed
  have bij: "bij_betw (\<lambda>ds. generate_license_key (\<lambda>j. ds ! j)) ?D ?K"
    unfolding bij_betw_def using generate_license_key_inj img by blast
  have cD: "card ?D = 31 ^ 16"
    by (rule card_draws)
  have uni: "\<forall>j<16. \<forall>c \<in> set chars.
         card {ds :: nat list. length ds = 16 \<and> set ds \<subseteq> {..<31}
                \<and> generate_license_key (\<lambda>i. ds ! i) ! (j + j div 4) = c} = 31 ^ 15"
    using card_symbol_at by blast
  have ind: "\<forall>ds0 :: nat list. length ds0 = 16 \<and> set ds0 \<subseteq> {..<31} \<longrightarrow>
         card {ds :: nat list. length ds = 16 \<and> set ds \<subseteq> {..<31}
                \<and> generate_license_key (\<lambda>i. ds ! i) = generate_license_key (\<lambda>i. ds0 ! i)} = 1"
    using card_key by blast
  have sub: "set ?k \<subseteq> set chars \<union> {CHR ''-''}"
    using key_part_alphabet [of rnd]
    by (auto simp: generate_license_key_unfold)
  have no: "set ?k \<inter> set ''01IOL'' = {}"
    using sub chars_unambiguous by auto
  from len parts [of rnd] own card chars_bij bij cD uni ind chars_unambiguous no show ?thesis
    by (intro conjI)
qed

text \<open>
  Witness for C7: with the draws \<open>3, 10, 17, \<dots>\<close> the key is \<^verbatim>\<open>DMU3-AHRY-7ENV-4BJS\<close>,
  of length 19 and without an ambiguous character; its character after the first hyphen
  is the symbol number \<open>31 mod 31 = 0\<close>, selected by draw 4.
\<close>

theorem generate_license_key_format_witness:
  "generate_license_key (\<lambda>i. 7 * i + 3) = ''DMU3-AHRY-7ENV-4BJS''
   \<and> length (generate_license_key (\<lambda>i. 7 * i + 3)) = 19
   \<and> generate_license_key (\<lambda>i. 7 * i + 3) ! 5 = chars ! 0
   \<and> set (generate_license_key (\<lambda>i. 7 * i + 3)) \<inter> set ''01IOL'' = {}"
proof -
  note g = generate_license_key_format [of "\<lambda>i. 7 * i + 3"]
  from g have "\<forall>j<16. generate_license_key (\<lambda>i. 7 * i + 3) ! (j + j div 4) =
                 chars ! ((7 * j + 3) mod 31)"
    by blast
  then have "generate_license_key (\<lambda>i. 7 * i + 3) ! (4 + 4 div 4) = chars ! ((7 * 4 + 3) mod 31)"
    by (rule allE [of _ 4]) simp
  then have 5: "generate_license_key (\<lambda>i. 7 * i + 3) ! 5 = chars ! 0"
    by simp
  have k: "generate_license_key (\<lambda>i. 7 * i + 3) = ''DMU3-AHRY-7ENV-4BJS''"
    by (simp add: generate_license_key_unfold key_part_unfold secrets_choice_def chars_def)
  from g have l: "length (generate_license_key (\<lambda>i. 7 * i + 3)) = 19"
    and n: "set (generate_license_key (\<lambda>i. 7 * i + 3)) \<inter> set ''01IOL'' = {}"
    by blast+
  from k l 5 n show ?thesis
    by (intro conjI)
qed

text \<open>
  Counterexample to C7 as stated: the alphabet of \<open>generate_license_key\<close> does not have
  32 symbols.
\<close>

theorem alphabet_size_counterexample: "card (set chars) \<noteq> 32"
  using distinct_card [OF distinct_chars] length_chars by simp

subsection \<open>Lookup, fetch and write\<close>

lemma normalize_cpf_cnpj_idem: "normalize_cpf_cnpj (normalize_cpf_cnpj v) = normalize_cpf_cnpj v"
  by (simp add: normalize_cpf_cnpj_def)

lemma find_license_by_cpf_Some:
  "find_license_by_cpf cpf ls = Some i \<Longrightarrow>
     i < length ls
     \<and> normalize_cpf_cnpj (get_or (cpf_cnpj (ls ! i)) '''') = normalize_cpf_cnpj cpf
     \<and> (\<forall>j<i. normalize_cpf_cnpj (get_or (cpf_cnpj (ls ! j)) '''') \<noteq> normalize_cpf_cnpj cpf)"
proof (induction ls arbitrary: i)
  case Nil
  then show ?case by simp
next
  case (Cons l ls)
  show ?case
  proof (cases "normalize_cpf_cnpj (get_or (cpf_cnpj l) '''') = normalize_cpf_cnpj cpf")
    case True
    with Cons.prems show ?thesis by simp
  next
    case False
    with Cons.prems obtain k where k: "find_license_by_cpf cpf ls = Some k" "i = Suc k"
      by auto
    from Cons.IH [OF k(1)] False k(2) show ?thesis
      by (auto simp: less_Suc_eq_0_disj)
  qed
qed

lemma find_license_by_cpf_None:
  "find_license_by_cpf cpf ls = None \<longleftrightarrow>
     (\<forall>l \<in> set ls. normalize_cpf_cnpj (get_or (cpf_cnpj l) '''') \<noteq> normalize_cpf_cnpj cpf)"
  by (induction ls) auto

lemma get_licenses_token:
  "get_licenses e = (ls, sha) \<Longrightarrow> ls \<noteq> [] \<Longrightarrow> GITHUB_TOKEN e \<noteq> ''''"
  by (auto simp: get_licenses_def split: if_splits)

lemma found_token:
  assumes "get_licenses e = (licenses, sha)" and "find_license_by_cpf cpf licenses = Some i"
  shows "GITHUB_TOKEN e \<noteq> ''''"
proof -
  from find_license_by_cpf_Some [OF assms(2)] have "licenses \<noteq> []"
    by auto
  with assms(1) show ?thesis
    by (rule get_licenses_token)
qed

lemma save_licenses_request:
  "GITHUB_TOKEN e \<noteq> '''' \<Longrightarrow>
     snd (save_licenses e ls sha msg) =
       Some \<lparr>req_message = msg, req_licenses = ls, req_updated_at = now e,
             req_sha = (if sha \<noteq> None \<and> sha \<noteq> Some '''' then sha else None)\<rparr>"
  by (simp add: save_licenses_def Let_def)

lemma get_licenses_env_of: "get_licenses (env_of ls) = (ls, Some ''3d21ec53'')"
  by (simp add: get_licenses_def env_of_def get_or_def)

lemma find_lic_ativa:
  "find_license_by_cpf (normalize_cpf_cnpj ''123.456.789-01'') [lic_ativa] = Some 0"
  by (simp add: lic_ativa_def nova_licenca_def normalize_cpf_cnpj_def is_digit_def get_or_def)

lemma truthy_lic_ativa: "truthy lic_ativa"
  by (simp add: truthy_def lic_ativa_def nova_licenca_def empty_dict_def)

lemma isoformat_739283: "isoformat 739283 = ''2025-02-01''"
  by (simp add: isoformat_def ord2ymd_def Let_def DAYS_BEFORE_MONTH_def DAYS_IN_MONTH_def
        fmt04_def fmt02_def digit_char_def)

subsection \<open>Suspension\<close>

lemma suspender_tg_found:
  assumes "get_licenses e = (licenses, sha)"
    and "find_license_by_cpf (normalize_cpf_cnpj arg0) licenses = Some i"
    and "truthy (licenses ! i)"
  shows "request (suspender_tg e arg0) =
           snd (save_licenses e (licenses[i := (licenses ! i)\<lparr>status := Some ''suspended''\<rparr>]) sha
                  (''Suspender licenca: '' @ py_str (customer (licenses ! i))))"
  using assms by (simp add: suspender_tg_def Let_def split: prod.split)

text \<open>
  Claim C9. When \<open>suspender\<close> finds a record (the fetch returned \<open>licenses\<close>, the first
  record with the identifier is at position \<open>i\<close>), it sends the document in which that
  record has the status \<^verbatim>\<open>suspended\<close> and every other field (\<open>expires\<close>, \<open>key\<close>,
  \<open>cpf_cnpj\<close>, \<open>customer\<close>, \<open>email\<close>, \<open>plan\<close>, \<open>max_users\<close>, \<open>created_at\<close>) as before; no
  record is added or removed and every other record is unchanged.
\<close>

theorem suspender_tg_frame:
  assumes "get_licenses e = (licenses, sha)"
    and "find_license_by_cpf (normalize_cpf_cnpj arg0) licenses = Some i"
    and "truthy (licenses ! i)"
  shows "\<exists>rq. request (suspender_tg e arg0) = Some rq
           \<and> req_licenses rq = licenses[i := (licenses ! i)\<lparr>status := Some ''suspended''\<rparr>]
           \<and> status (req_licenses rq ! i) = Some ''suspended''
           \<and> expires (req_licenses rq ! i) = expires (licenses ! i)
           \<and> key (req_licenses rq ! i) = key (licenses ! i)
           \<and> cpf_cnpj (req_licenses rq ! i) = cpf_cnpj (licenses ! i)
           \<and> customer (req_licenses rq ! i) = customer (licenses ! i)
           \<and> email (req_licenses rq ! i) = email (licenses ! i)
           \<and> plan (req_licenses rq ! i) = plan (licenses ! i)
           \<and> max_users (req_licenses rq ! i) = max_users (licenses ! i)
           \<and> created_at (req_licenses rq ! i) = created_at (licenses ! i)
           \<and> length (req_licenses rq) = length licenses
           \<and> (\<forall>j. j \<noteq> i \<longrightarrow> req_licenses rq ! j = licenses ! j)"
proof -
  from find_license_by_cpf_Some [OF assms(2)] have i: "i < length licenses"
    by simp
  have tok: "GITHUB_TOKEN e \<noteq> ''''"
    using assms(1,2) by (rule found_token)
  show ?thesis
    using i by (simp add: suspender_tg_found [OF assms] save_licenses_request [OF tok])
qed

text \<open>
  Witness for C9: suspending the example record, addressed as \<^verbatim>\<open>123.456.789-01\<close>, sends
  the document with the same record, its status \<^verbatim>\<open>suspended\<close>.
\<close>

theorem suspender_tg_frame_witness:
  "request (suspender_tg (env_of [lic_ativa]) ''123.456.789-01'') =
     Some \<lparr>req_message = ''Suspender licenca: Cliente 8901'',
           req_licenses = [lic_ativa\<lparr>status := Some ''suspended''\<rparr>],
           req_updated_at = ''2025-02-01T12:00:00'', req_sha = Some ''3d21ec53''\<rparr>"
proof -
  note 1 = get_licenses_env_of [of "[lic_ativa]"]
  note 2 = find_lic_ativa
  have 3: "truthy ([lic_ativa] ! 0)"
    by (simp add: truthy_lic_ativa)
  from suspender_tg_frame [OF 1 2 3] obtain rq where
    rq: "request (suspender_tg (env_of [lic_ativa]) ''123.456.789-01'') = Some rq"
      "req_licenses rq = [lic_ativa\<lparr>status := Some ''suspended''\<rparr>]"
    by auto
  have "request (suspender_tg (env_of [lic_ativa]) ''123.456.789-01'') =
     Some \<lparr>req_message = ''Suspender licenca: Cliente 8901'',
           req_licenses = [lic_ativa\<lparr>status := Some ''suspended''\<rparr>],
           req_updated_at = ''2025-02-01T12:00:00'', req_sha = Some ''3d21ec53''\<rparr>"
    using rq
    by (simp only: suspender_tg_found [OF 1 2 3])
       (simp add: save_licenses_def env_of_def Let_def py_str_def lic_ativa_def nova_licenca_def)
  then show ?thesis .
qed

subsection \<open>Cancellation\<close>

lemma cancelar_found:
  assumes "get_licenses e = (licenses, sha)"
    and "find_license_by_cpf (normalize_cpf_cnpj arg0) licenses = Some i"
    and "truthy (licenses ! i)"
  shows "request (cancelar e arg0) =
           snd (save_licenses e
                  (licenses[i := (licenses ! i)\<lparr>status := Some ''cancelled'',
                       expires := Some (isoformat (today e)), key := Some ''''\<rparr>]) sha
                  (''Cancelar: '' @ py_str (customer (licenses ! i))))"
  using assms by (simp add: cancelar_def Let_def split: prod.split)

lemma cancelar_tg_found:
  assumes "get_licenses e = (licenses, sha)"
    and "find_license_by_cpf (normalize_cpf_cnpj arg0) licenses = Some i"
    and "truthy (licenses ! i)"
  shows "request (cancelar_tg e arg0) =
           snd (save_licenses e (licenses[i := (licenses ! i)\<lparr>status := Some ''cancelled''\<rparr>]) sha
                  (''Cancelar licenca: '' @ py_str (customer (licenses ! i))))"
  using assms by (simp add: cancelar_tg_def Let_def split: prod.split)

text \<open>
  Claim C2, as the code has it. When a record is found at position \<open>i\<close>:
  \<^item> \<open>cancelar\<close> of \<^verbatim>\<open>src/bot.py\<close> sends the document in which that record has the status
    \<^verbatim>\<open>cancelled\<close>, \<open>expires\<close> equal to today and the empty key;
  \<^item> \<open>cancelar\<close> of \<^verbatim>\<open>src/telegram-bot/bot.py\<close> sends the document in which that record
    has the status \<^verbatim>\<open>cancelled\<close>, and \<open>expires\<close> and \<open>key\<close> as before;
  \<^item> in both, the document keeps its length (the record is not removed) and every other
    record is unchanged.
\<close>

theorem cancelar_effect:
  assumes "get_licenses e = (licenses, sha)"
    and "find_license_by_cpf (normalize_cpf_cnpj arg0) licenses = Some i"
    and "truthy (licenses ! i)"
  shows "(\<exists>rq. request (cancelar e arg0) = Some rq
            \<and> status (req_licenses rq ! i) = Some ''cancelled''
            \<and> expires (req_licenses rq ! i) = Some (isoformat (today e))
            \<and> key (req_licenses rq ! i) = Some ''''
            \<and> length (req_licenses rq) = length licenses
            \<and> (\<forall>j. j \<noteq> i \<longrightarrow> req_licenses rq ! j = licenses ! j))
       \<and> (\<exists>rq. request (cancelar_tg e arg0) = Some rq
            \<and> status (req_licenses rq ! i) = Some ''cancelled''
            \<and> expires (req_licenses rq ! i) = expires (licenses ! i)
            \<and> key (req_licenses rq ! i) = key (licenses ! i)
            \<and> length (req_licenses rq) = length licenses
            \<and> (\<forall>j. j \<noteq> i \<longrightarrow> req_licenses rq ! j = licenses ! j))"
proof -
  from find_license_by_cpf_Some [OF assms(2)] have i: "i < length licenses"
    by simp
  have tok: "GITHUB_TOKEN e \<noteq> ''''"
    using assms(1,2) by (rule found_token)
  have a: "\<exists>rq. request (cancelar e arg0) = Some rq
            \<and> status (req_licenses rq ! i) = Some ''cancelled''
            \<and> expires (req_licenses rq ! i) = Some (isoformat (today e))
            \<and> key (req_licenses rq ! i) = Some ''''
            \<and> length (req_licenses rq) = length licenses
            \<and> (\<forall>j. j \<noteq> i \<longrightarrow> req_licenses rq ! j = licenses ! j)"
    using i by (simp add: cancelar_found [OF assms] save_licenses_request [OF tok])
  have b: "\<exists>rq. request (cancelar_tg e arg0) = Some rq
            \<and> status (req_licenses rq ! i) = Some ''cancelled''
            \<and> expires (req_licenses rq ! i) = expires (licenses ! i)
            \<and> key (req_licenses rq ! i) = key (licenses ! i)
            \<and> length (req_licenses rq) = length licenses
            \<and> (\<forall>j. j \<noteq> i \<longrightarrow> req_licenses rq ! j = licenses ! j)"
    using i by (simp add: cancelar_tg_found [OF assms] save_licenses_request [OF tok])
  from a b show ?thesis ..
qed

text \<open>
  Witness for C2: \<open>cancelar\<close> of \<^verbatim>\<open>src/bot.py\<close> on the example record, on 2025-02-01.
\<close>

theorem cancelar_effect_witness:
  "request (cancelar (env_of [lic_ativa]) ''123.456.789-01'') =
     Some \<lparr>req_message = ''Cancelar: Cliente 8901'',
           req_licenses = [lic_ativa\<lparr>status := Some ''cancelled'',
                             expires := Some ''2025-02-01'', key := Some ''''\<rparr>],
           req_updated_at = ''2025-02-01T12:00:00'', req_sha = Some ''3d21ec53''\<rparr>"
proof -
  note 1 = get_licenses_env_of [of "[lic_ativa]"]
  note 2 = find_lic_ativa
  have 3: "truthy ([lic_ativa] ! 0)"
    by (simp add: truthy_lic_ativa)
  from cancelar_effect [OF 1 2 3] obtain rq where
    rq: "request (cancelar (env_of [lic_ativa]) ''123.456.789-01'') = Some rq"
      "key (req_licenses rq ! 0) = Some ''''"
    by auto
  have t: "today (env_of [lic_ativa]) = 739283"
    by (simp add: env_of_def)
  have "request (cancelar (env_of [lic_ativa]) ''123.456.789-01'') =
     Some \<lparr>req_message = ''Cancelar: Cliente 8901'',
           req_licenses = [lic_ativa\<lparr>status := Some ''cancelled'',
                             expires := Some ''2025-02-01'', key := Some ''''\<rparr>],
           req_updated_at = ''2025-02-01T12:00:00'', req_sha = Some ''3d21ec53''\<rparr>"
    using rq
    by (simp only: cancelar_found [OF 1 2 3] t isoformat_739283)
       (simp add: save_licenses_def env_of_def Let_def py_str_def lic_ativa_def nova_licenca_def)
  then show ?thesis .
qed

text \<open>
  Counterexample to C2 as stated: \<open>cancelar\<close> of \<^verbatim>\<open>src/telegram-bot/bot.py\<close> on the example
  record, on 2025-02-01. The record it sends is cancelled, but its \<open>expires\<close> is still
  2025-03-01, not today, and its key is still the old key, not the empty string.
\<close>

theorem cancelar_tg_counterexample:
  "request (cancelar_tg (env_of [lic_ativa]) ''123.456.789-01'') =
     Some \<lparr>req_message = ''Cancelar licenca: Cliente 8901'',
           req_licenses = [\<lparr>key = Some ''XK3F-9MPQ-7RTV-2WZY'', cpf_cnpj = Some ''12345678901'',
              customer = Some ''Cliente 8901'', email = Some '''', plan = Some ''profissional'',
              status = Some ''cancelled'', expires = Some ''2025-03-01'', max_users = Some 3,
              created_at = Some ''2025-02-01T12:00:00''\<rparr>],
           req_updated_at = ''2025-02-01T12:00:00'', req_sha = Some ''3d21ec53''\<rparr>
   \<and> isoformat (today (env_of [lic_ativa])) = ''2025-02-01''"
proof -
  note 1 = get_licenses_env_of [of "[lic_ativa]"]
  note 2 = find_lic_ativa
  have 3: "truthy ([lic_ativa] ! 0)"
    by (simp add: truthy_lic_ativa)
  have t: "today (env_of [lic_ativa]) = 739283"
    by (simp add: env_of_def)
  show ?thesis
    by (simp only: cancelar_tg_found [OF 1 2 3] t isoformat_739283)
       (simp add: save_licenses_def env_of_def Let_def py_str_def lic_ativa_def nova_licenca_def)
qed

subsection \<open>Activation\<close>

lemma found_truthy:
  assumes "find_license_by_cpf cpf licenses = Some i" and "normalize_cpf_cnpj cpf \<noteq> []"
  shows "truthy (licenses ! i)"
proof -
  from find_license_by_cpf_Some [OF assms(1)] assms(2)
  have "normalize_cpf_cnpj (get_or (cpf_cnpj (licenses ! i)) '''') \<noteq> []"
    by simp
  then have "cpf_cnpj (licenses ! i) \<noteq> None"
    by (auto simp: get_or_def normalize_cpf_cnpj_def split: option.splits)
  then show ?thesis
    by (auto simp: truthy_def empty_dict_def)
qed

lemma find_license_by_cpf_norm:
  "find_license_by_cpf (normalize_cpf_cnpj cpf) ls = find_license_by_cpf cpf ls"
  by (induction ls) (simp_all add: normalize_cpf_cnpj_idem)

lemma find_license_by_cpf_ex:
  assumes "\<exists>lic \<in> set licenses.
             normalize_cpf_cnpj (get_or (cpf_cnpj lic) '''') = normalize_cpf_cnpj cpf"
  shows "\<exists>i. find_license_by_cpf cpf licenses = Some i"
  using assms find_license_by_cpf_None [of cpf licenses] by (cases "find_license_by_cpf cpf licenses") auto

text \<open>
  Claim C3. Let the fetch return a document that holds a record whose normalized
  identifier equals the normalized identifier passed to \<open>ativar\<close>. Then, in both
  variants, the handler makes no PUT request, whatever its arguments: nothing is appended
  and the stored document stays as it is. When the arguments pass the validation that
  comes first (11 or 14 digits, 1 to 24 months), the reply is the duplicate-identifier
  reply, with the first record of that identifier.
\<close>

theorem ativar_duplicate:
  assumes "get_licenses e = (licenses, sha)"
    and "\<exists>lic \<in> set licenses.
           normalize_cpf_cnpj (get_or (cpf_cnpj lic) '''') = normalize_cpf_cnpj arg0"
  shows "(\<exists>out. ativar e arg0 meses rest = Inr out \<and> request out = None)
       \<and> (\<exists>out. ativar_tg e arg0 meses rest = Inr out \<and> request out = None)
       \<and> ((length (normalize_cpf_cnpj arg0) = 11 \<or> length (normalize_cpf_cnpj arg0) = 14)
            \<and> 1 \<le> meses \<and> meses \<le> 24 \<longrightarrow>
          (\<exists>i. find_license_by_cpf arg0 licenses = Some i
             \<and> ativar e arg0 meses rest = Inr \<lparr>reply = JaExiste (licenses ! i), request = None\<rparr>
             \<and> ativar_tg e arg0 meses rest = Inr \<lparr>reply = JaExiste (licenses ! i), request = None\<rparr>))"
proof -
  let ?cpf = "normalize_cpf_cnpj arg0"
  from assms(2) have "\<exists>lic \<in> set licenses.
      normalize_cpf_cnpj (get_or (cpf_cnpj lic) '''') = normalize_cpf_cnpj ?cpf"
    by (simp add: normalize_cpf_cnpj_idem)
  then obtain i where i: "find_license_by_cpf ?cpf licenses = Some i"
    using find_license_by_cpf_ex by blast
  have i': "find_license_by_cpf arg0 licenses = Some i"
    using i find_license_by_cpf_norm by simp
  show ?thesis
  proof (cases "(length ?cpf = 11 \<or> length ?cpf = 14) \<and> 1 \<le> meses \<and> meses \<le> 24")
    case True
    then have "normalize_cpf_cnpj ?cpf \<noteq> []"
      by (auto simp: normalize_cpf_cnpj_idem)
    with i have t: "truthy (licenses ! i)"
      by (rule found_truthy)
    have a: "ativar e arg0 meses rest = Inr \<lparr>reply = JaExiste (licenses ! i), request = None\<rparr>"
      using True assms(1) i t by (auto simp: ativar_def Let_def)
    have b: "ativar_tg e arg0 meses rest = Inr \<lparr>reply = JaExiste (licenses ! i), request = None\<rparr>"
      using True assms(1) i t by (auto simp: ativar_tg_def Let_def)
    from a b i' show ?thesis by simp
  next
    case False
    have a: "\<exists>out. ativar e arg0 meses rest = Inr out \<and> request out = None"
      using False by (auto simp: ativar_def Let_def)
    have b: "\<exists>out. ativar_tg e arg0 meses rest = Inr out \<and> request out = None"
      using False by (auto simp: ativar_tg_def Let_def)
    from a b False show ?thesis by blast
  qed
qed

text \<open>
  Witness for C3: activating \<^verbatim>\<open>123.456.789-01\<close> for 12 months when the document holds the
  example record of that identifier.
\<close>

theorem ativar_duplicate_witness:
  "ativar (env_of [lic_ativa]) ''123.456.789-01'' 12 [] =
     Inr \<lparr>reply = JaExiste lic_ativa, request = None\<rparr>
   \<and> ativar_tg (env_of [lic_ativa]) ''123.456.789-01'' 12 [] =
     Inr \<lparr>reply = JaExiste lic_ativa, request = None\<rparr>"
proof -
  note 1 = get_licenses_env_of [of "[lic_ativa]"]
  have 2: "\<exists>lic \<in> set [lic_ativa].
      normalize_cpf_cnpj (get_or (cpf_cnpj lic) '''') = normalize_cpf_cnpj ''123.456.789-01''"
    by (simp add: lic_ativa_def nova_licenca_def normalize_cpf_cnpj_def is_digit_def get_or_def)
  have 3: "length (normalize_cpf_cnpj ''123.456.789-01'') = 11"
    by (simp add: normalize_cpf_cnpj_def is_digit_def)
  have 4: "find_license_by_cpf ''123.456.789-01'' [lic_ativa] = Some 0"
    using find_lic_ativa by (simp only: find_license_by_cpf_norm)
  from ativar_duplicate [OF 1 2, of 12 "[]"] 3 show ?thesis
    by (simp only: 4) auto
qed

subsection \<open>Renewal\<close>

lemma date_add_representable: "representable d n \<Longrightarrow> date_add d n = Inr (d + n)"
  by (simp add: representable_def date_add_def timedelta_def)

lemma date_add_overflow: "\<not> representable d n \<Longrightarrow> date_add d n = Inl OverflowError"
  by (auto simp: representable_def date_add_def timedelta_def)

lemma dropWhile_all:
  "(\<forall>c \<in> set (dropWhile P s). P c) \<longleftrightarrow> (\<forall>c \<in> set s. P c)"
proof
  assume a: "\<forall>c \<in> set (dropWhile P s). P c"
  have "dropWhile P s = []"
  proof (cases "dropWhile P s")
    case Nil
    then show ?thesis .
  next
    case (Cons x xs)
    then have "\<not> P x"
      using hd_dropWhile [of P s] by auto
    with a Cons show ?thesis by simp
  qed
  then show "\<forall>c \<in> set s. P c"
    by (rule dropWhile_eq_Nil_conv [THEN iffD1])
next
  assume "\<forall>c \<in> set s. P c"
  then show "\<forall>c \<in> set (dropWhile P s). P c"
    using set_dropWhileD by fastforce
qed

lemma strip_eq_Nil: "strip s = [] \<longleftrightarrow> (\<forall>c \<in> set s. is_space c)"
  by (simp add: strip_def dropWhile_all)

lemma is_key_empty_iff:
  "is_key_empty lic \<longleftrightarrow> (\<forall>c \<in> set (get_or (key lic) ''''). is_space c)"
  by (auto simp: is_key_empty_def Let_def strip_eq_Nil)

lemma is_cancelled_iff: "is_cancelled lic \<longleftrightarrow> status lic = Some ''cancelled''"
  by (cases "status lic") (simp_all add: is_cancelled_def get_or_def)

lemma is_expired_iff:
  "is_expired e lic \<longleftrightarrow>
     (\<forall>d. fromisoformat e (get_or (expires lic) '''') = Some d \<longrightarrow> d \<le> today e)"
  by (cases "fromisoformat e (get_or (expires lic) '''')")
     (simp_all add: is_expired_def current_expires_def)

lemma should_start_from_zero_iff:
  "should_start_from_zero e lic \<longleftrightarrow>
     status lic = Some ''cancelled''
     \<or> (\<forall>c \<in> set (get_or (key lic) ''''). is_space c)
     \<or> (\<forall>d. fromisoformat e (get_or (expires lic) '''') = Some d \<longrightarrow> d \<le> today e)"
  by (simp only: should_start_from_zero_def is_cancelled_iff is_key_empty_iff is_expired_iff)

text \<open>The outcome of \<open>renovar\<close> of \<^verbatim>\<open>src/bot.py\<close> on a record that it finds, when it
  starts from zero and when it does not.\<close>

lemma renovar_zero:
  assumes "get_licenses e = (licenses, sha)"
    and "find_license_by_cpf (normalize_cpf_cnpj arg0) licenses = Some i"
    and "truthy (licenses ! i)"
    and "should_start_from_zero e (licenses ! i)"
    and "representable (today e) (30 * meses)"
  shows "\<exists>out. renovar e arg0 meses = Inr out
           \<and> request out =
               Some \<lparr>req_message = ''Renovar: '' @ py_str (customer (licenses ! i)),
                     req_licenses = licenses[i := (licenses ! i)
                        \<lparr>key := Some (generate_license_key (entropy e)),
                         expires := Some (isoformat (today e + 30 * meses)),
                         status := Some ''active''\<rparr>],
                     req_updated_at = now e,
                     req_sha = (if sha \<noteq> None \<and> sha \<noteq> Some '''' then sha else None)\<rparr>"
proof -
  have tok: "GITHUB_TOKEN e \<noteq> ''''"
    using assms(1,2) by (rule found_token)
  show ?thesis
    using assms(1-4)
    by (simp add: renovar_def Let_def date_add_representable [OF assms(5)]
          save_licenses_def tok split: prod.split)
qed

lemma renovar_keep:
  assumes "get_licenses e = (licenses, sha)"
    and "find_license_by_cpf (normalize_cpf_cnpj arg0) licenses = Some i"
    and "truthy (licenses ! i)"
    and "\<not> should_start_from_zero e (licenses ! i)"
    and "representable (current_expires e (licenses ! i)) (30 * meses)"
  shows "\<exists>out. renovar e arg0 meses = Inr out
           \<and> request out =
               Some \<lparr>req_message = ''Renovar: '' @ py_str (customer (licenses ! i)),
                     req_licenses = licenses[i := (licenses ! i)
                        \<lparr>expires := Some (isoformat (current_expires e (licenses ! i) + 30 * meses)),
                         status := Some ''active''\<rparr>],
                     req_updated_at = now e,
                     req_sha = (if sha \<noteq> None \<and> sha \<noteq> Some '''' then sha else None)\<rparr>"
proof -
  have tok: "GITHUB_TOKEN e \<noteq> ''''"
    using assms(1,2) by (rule found_token)
  show ?thesis
    using assms(1-4)
    by (simp add: renovar_def Let_def date_add_representable [OF assms(5)]
          save_licenses_def tok split: prod.split)
qed

lemma renovar_overflow:
  assumes "get_licenses e = (licenses, sha)"
    and "find_license_by_cpf (normalize_cpf_cnpj arg0) licenses = Some i"
    and "truthy (licenses ! i)"
    and "\<not> representable (if should_start_from_zero e (licenses ! i) then today e
                            else current_expires e (licenses ! i)) (30 * meses)"
  shows "renovar e arg0 meses = Inl OverflowError"
  using assms(1-3) by (simp add: renovar_def Let_def date_add_overflow [OF assms(4)])

lemma renovar_tg_found:
  assumes "get_licenses e = (licenses, sha)"
    and "find_license_by_cpf (normalize_cpf_cnpj arg0) licenses = Some i"
    and "truthy (licenses ! i)"
    and "representable (max (current_expires_tg e (licenses ! i)) (today e)) (30 * meses)"
  shows "\<exists>out. renovar_tg e arg0 meses = Inr out
           \<and> request out =
               Some \<lparr>req_message = ''Renovar licenca: '' @ py_str (customer (licenses ! i)),
                     req_licenses = licenses[i := (licenses ! i)
                        \<lparr>expires := Some (isoformat
                            (max (current_expires_tg e (licenses ! i)) (today e) + 30 * meses)),
                         status := Some ''active''\<rparr>],
                     req_updated_at = now e,
                     req_sha = (if sha \<noteq> None \<and> sha \<noteq> Some '''' then sha else None)\<rparr>"
proof -
  have tok: "GITHUB_TOKEN e \<noteq> ''''"
    using assms(1,2) by (rule found_token)
  show ?thesis
    using assms(1-3)
    by (simp add: renovar_tg_def Let_def date_add_representable [OF assms(4)]
          save_licenses_def tok split: prod.split)
qed

lemma renovar_tg_overflow:
  assumes "get_licenses e = (licenses, sha)"
    and "find_license_by_cpf (normalize_cpf_cnpj arg0) licenses = Some i"
    and "truthy (licenses ! i)"
    and "\<not> representable (max (current_expires_tg e (licenses ! i)) (today e)) (30 * meses)"
  shows "renovar_tg e arg0 meses = Inl OverflowError"
  using assms(1-3)
  by (simp add: renovar_tg_def Let_def date_add_overflow [OF assms(4)])

lemma renovar_reset:
  assumes "get_licenses e = (licenses, sha)"
    and "find_license_by_cpf (normalize_cpf_cnpj arg0) licenses = Some i"
    and "truthy (licenses ! i)"
    and "status (licenses ! i) = Some ''cancelled''
          \<or> (\<forall>c \<in> set (get_or (key (licenses ! i)) ''''). is_space c)
          \<or> (\<forall>d. fromisoformat e (get_or (expires (licenses ! i)) '''') = Some d \<longrightarrow> d \<le> today e)"
    and "representable (today e) (30 * meses)"
  shows "\<exists>out rq. renovar e arg0 meses = Inr out \<and> request out = Some rq
           \<and> req_licenses rq = licenses[i := (licenses ! i)
                \<lparr>key := Some (generate_license_key (entropy e)),
                 expires := Some (isoformat (today e + 30 * meses)),
                 status := Some ''active''\<rparr>]"
proof -
  from assms(4) have "should_start_from_zero e (licenses ! i)"
    by (simp only: should_start_from_zero_iff)
  from renovar_zero [OF assms(1-3) this assms(5)] show ?thesis
    by auto
qed

lemma renovar_accumulate:
  assumes "get_licenses e = (licenses, sha)"
    and "find_license_by_cpf (normalize_cpf_cnpj arg0) licenses = Some i"
    and "truthy (licenses ! i)"
    and "status (licenses ! i) \<noteq> Some ''cancelled''"
    and "\<exists>c \<in> set (get_or (key (licenses ! i)) ''''). \<not> is_space c"
    and "fromisoformat e (get_or (expires (licenses ! i)) '''') = Some d"
    and "today e < d"
    and "representable d (30 * meses)"
  shows "\<exists>out rq. renovar e arg0 meses = Inr out \<and> request out = Some rq
           \<and> req_licenses rq = licenses[i := (licenses ! i)
                \<lparr>expires := Some (isoformat (d + 30 * meses)), status := Some ''active''\<rparr>]"
proof -
  have z: "\<not> should_start_from_zero e (licenses ! i)"
    using assms(4-7) by (auto simp: should_start_from_zero_iff)
  have c: "current_expires e (licenses ! i) = d"
    using assms(6) by (simp add: current_expires_def)
  from assms(8) c have "representable (current_expires e (licenses ! i)) (30 * meses)"
    by simp
  from renovar_keep [OF assms(1-3) z this] c show ?thesis
    by auto
qed

text \<open>
  Claim C1, as the code has it, for \<open>renovar\<close> of \<^verbatim>\<open>src/bot.py\<close> on a record found at
  position \<open>i\<close>, on every version of Python: the stored \<open>expires\<close> (the empty string
  when the record has none) is a date when \<^verbatim>\<open>date.fromisoformat\<close> of the environment
  accepts it.
  \<^item> If the status is \<^verbatim>\<open>cancelled\<close>, or the key is absent, empty or made of whitespace
    only, or the stored \<open>expires\<close> is not a date, or is a date not after today, and
    today plus \<open>30 * meses\<close> days is a date, then the handler sends the document in which
    the record has a newly generated key, \<open>expires\<close> equal to today plus \<open>30 * meses\<close>
    days, and the status \<^verbatim>\<open>active\<close>.
  \<^item> Otherwise the stored \<open>expires\<close> is a date \<open>d\<close> after today, and if \<open>d\<close> plus
    \<open>30 * meses\<close> days is a date, the handler sends the document in which the record has
    \<open>expires\<close> equal to \<open>d\<close> plus \<open>30 * meses\<close> days, the status \<^verbatim>\<open>active\<close>, and its
    key as before.
\<close>

theorem renovar_policy:
  assumes "get_licenses e = (licenses, sha)"
    and "find_license_by_cpf (normalize_cpf_cnpj arg0) licenses = Some i"
    and "truthy (licenses ! i)"
  shows "((status (licenses ! i) = Some ''cancelled''
            \<or> (\<forall>c \<in> set (get_or (key (licenses ! i)) ''''). is_space c)
            \<or> (\<forall>d. fromisoformat e (get_or (expires (licenses ! i)) '''') = Some d \<longrightarrow> d \<le> today e))
          \<and> representable (today e) (30 * meses) \<longrightarrow>
          (\<exists>out rq. renovar e arg0 meses = Inr out \<and> request out = Some rq
             \<and> req_licenses rq = licenses[i := (licenses ! i)
                  \<lparr>key := Some (generate_license_key (entropy e)),
                   expires := Some (isoformat (today e + 30 * meses)),
                   status := Some ''active''\<rparr>]))
       \<and> (status (licenses ! i) \<noteq> Some ''cancelled''
          \<and> (\<exists>c \<in> set (get_or (key (licenses ! i)) ''''). \<not> is_space c)
          \<and> fromisoformat e (get_or (expires (licenses ! i)) '''') = Some d \<and> today e < d
          \<and> representable d (30 * meses) \<longrightarrow>
          (\<exists>out rq. renovar e arg0 meses = Inr out \<and> request out = Some rq
             \<and> req_licenses rq = licenses[i := (licenses ! i)
                  \<lparr>expires := Some (isoformat (d + 30 * meses)), status := Some ''active''\<rparr>]))"
  using renovar_reset [OF assms] renovar_accumulate [OF assms] by blast

declare fromisoformat_extended.simps [simp del]

lemma fromisoformat_2025_03_01: "fromisoformat_extended ''2025-03-01'' = Some 739311"
  by (simp add: fromisoformat_extended.simps is_digit_def digit_val_def days_in_month_def DAYS_IN_MONTH_def
        ymd2ord_def days_before_year_def days_before_month_def DAYS_BEFORE_MONTH_def is_leap_def)

lemma isoformat_739341: "isoformat 739341 = ''2025-03-31''"
  by (simp add: isoformat_def ord2ymd_def Let_def DAYS_BEFORE_MONTH_def DAYS_IN_MONTH_def
        fmt04_def fmt02_def digit_char_def)

lemma isoformat_739313: "isoformat 739313 = ''2025-03-03''"
  by (simp add: isoformat_def ord2ymd_def Let_def DAYS_BEFORE_MONTH_def DAYS_IN_MONTH_def
        fmt04_def fmt02_def digit_char_def)

lemma isoformat_739343: "isoformat 739343 = ''2025-04-02''"
  by (simp add: isoformat_def ord2ymd_def Let_def DAYS_BEFORE_MONTH_def DAYS_IN_MONTH_def
        fmt04_def fmt02_def digit_char_def)

lemma generate_license_key_example:
  "generate_license_key (\<lambda>i. 7 * i + 3) = ''DMU3-AHRY-7ENV-4BJS''"
  by (simp add: generate_license_key_unfold key_part_unfold secrets_choice_def chars_def)

lemma env_of_simps:
  "today (env_of ls) = 739283" "entropy (env_of ls) = (\<lambda>i. 7 * i + 3)"
  "now (env_of ls) = ''2025-02-01T12:00:00''" "GITHUB_TOKEN (env_of ls) = ''ghp_token''"
  "github_put (env_of ls) = PutStatus 200" "fromisoformat (env_of ls) = fromisoformat_extended"
  by (simp_all add: env_of_def)

lemma find_singleton:
  "normalize_cpf_cnpj (get_or (cpf_cnpj lic) '''') = normalize_cpf_cnpj cpf \<Longrightarrow>
     find_license_by_cpf cpf [lic] = Some 0"
  by simp

lemma lic_ativa_fields:
  "key lic_ativa = Some ''XK3F-9MPQ-7RTV-2WZY''" "cpf_cnpj lic_ativa = Some ''12345678901''"
  "customer lic_ativa = Some ''Cliente 8901''" "status lic_ativa = Some ''active''"
  "expires lic_ativa = Some ''2025-03-01''"
  by (simp_all add: lic_ativa_def nova_licenca_def)

lemma normalize_example:
  "normalize_cpf_cnpj ''123.456.789-01'' = ''12345678901''"
  "normalize_cpf_cnpj ''12345678901'' = ''12345678901''"
  by (simp_all add: normalize_cpf_cnpj_def is_digit_def)

lemma find_example:
  assumes "cpf_cnpj lic = Some ''12345678901''"
  shows "find_license_by_cpf (normalize_cpf_cnpj ''123.456.789-01'') [lic] = Some 0"
  by (rule find_singleton) (simp add: assms get_or_def normalize_example)

lemma truthy_example: "cpf_cnpj lic = Some c \<Longrightarrow> truthy lic"
  by (auto simp: truthy_def empty_dict_def)

lemma lic_cancelada_fields:
  "key lic_cancelada = Some ''XK3F-9MPQ-7RTV-2WZY''" "cpf_cnpj lic_cancelada = Some ''12345678901''"
  "customer lic_cancelada = Some ''Cliente 8901''" "status lic_cancelada = Some ''cancelled''"
  "expires lic_cancelada = Some ''2025-03-01''"
  by (simp_all add: lic_cancelada_def lic_ativa_fields)

lemma lic_chave_branca_fields:
  "key lic_chave_branca = Some '' ''" "cpf_cnpj lic_chave_branca = Some ''12345678901''"
  "customer lic_chave_branca = Some ''Cliente 8901''" "status lic_chave_branca = Some ''active''"
  "expires lic_chave_branca = Some ''2025-03-01''"
  by (simp_all add: lic_chave_branca_def lic_ativa_fields)

lemma key_not_blank: "\<exists>c \<in> set ''XK3F-9MPQ-7RTV-2WZY''. \<not> is_space c"
  by (simp add: is_space_def)

text \<open>
  Witness for C1, on 2025-02-01. Renewing the active example record (expires 2025-03-01)
  for one month gives 2025-03-31 and leaves the key; renewing the cancelled example
  record for two months gives 2025-04-02, the status \<^verbatim>\<open>active\<close> and a new key.
\<close>

theorem renovar_policy_witness:
  "(\<exists>out rq. renovar (env_of [lic_ativa]) ''123.456.789-01'' 1 = Inr out \<and> request out = Some rq
      \<and> req_licenses rq = [lic_ativa\<lparr>expires := Some ''2025-03-31'', status := Some ''active''\<rparr>])
   \<and> (\<exists>out rq. renovar (env_of [lic_cancelada]) ''123.456.789-01'' 2 = Inr out
      \<and> request out = Some rq
      \<and> req_licenses rq = [lic_cancelada\<lparr>key := Some ''DMU3-AHRY-7ENV-4BJS'',
           expires := Some ''2025-04-02'', status := Some ''active''\<rparr>])"
proof -
  have f1: "find_license_by_cpf (normalize_cpf_cnpj ''123.456.789-01'') [lic_ativa] = Some 0"
    by (rule find_lic_ativa)
  have t1: "truthy ([lic_ativa] ! 0)"
    by (simp add: truthy_lic_ativa)
  have s: "status ([lic_ativa] ! 0) \<noteq> Some ''cancelled''"
    by (simp add: lic_ativa_fields)
  have k: "\<exists>c \<in> set (get_or (key ([lic_ativa] ! 0)) ''''). \<not> is_space c"
    using key_not_blank by (simp add: lic_ativa_fields get_or_def)
  have x: "fromisoformat (env_of [lic_ativa]) (get_or (expires ([lic_ativa] ! 0)) '''') =
             Some 739311"
    by (simp add: lic_ativa_fields get_or_def fromisoformat_2025_03_01 env_of_simps)
  have td: "today (env_of [lic_ativa]) < 739311"
    by (simp add: env_of_simps)
  have r1: "representable 739311 (30 * 1)"
    by (simp add: representable_def MAXORDINAL_def)
  from renovar_policy [OF get_licenses_env_of f1 t1, of 1 739311, THEN conjunct2] s k x td r1
  have "\<exists>out rq. renovar (env_of [lic_ativa]) ''123.456.789-01'' 1 = Inr out
      \<and> request out = Some rq
      \<and> req_licenses rq = [lic_ativa][0 := ([lic_ativa] ! 0)
           \<lparr>expires := Some (isoformat (739311 + 30 * 1)), status := Some ''active''\<rparr>]"
    by blast
  then have a: "\<exists>out rq. renovar (env_of [lic_ativa]) ''123.456.789-01'' 1 = Inr out
      \<and> request out = Some rq
      \<and> req_licenses rq = [lic_ativa\<lparr>expires := Some ''2025-03-31'', status := Some ''active''\<rparr>]"
    by (simp add: isoformat_739341)
  have f2: "find_license_by_cpf (normalize_cpf_cnpj ''123.456.789-01'') [lic_cancelada] = Some 0"
    by (rule find_example) (rule lic_cancelada_fields)
  have t2: "truthy ([lic_cancelada] ! 0)"
    using truthy_example [OF lic_cancelada_fields(2)] by simp
  have c: "status ([lic_cancelada] ! 0) = Some ''cancelled''"
    by (simp add: lic_cancelada_fields)
  have r2: "representable (today (env_of [lic_cancelada])) (30 * 2)"
    by (simp add: env_of_simps representable_def MAXORDINAL_def)
  from renovar_policy [OF get_licenses_env_of f2 t2, of 2 0, THEN conjunct1] c r2
  have "\<exists>out rq. renovar (env_of [lic_cancelada]) ''123.456.789-01'' 2 = Inr out
      \<and> request out = Some rq
      \<and> req_licenses rq = [lic_cancelada][0 := ([lic_cancelada] ! 0)
           \<lparr>key := Some (generate_license_key (entropy (env_of [lic_cancelada]))),
            expires := Some (isoformat (today (env_of [lic_cancelada]) + 30 * 2)),
            status := Some ''active''\<rparr>]"
    by blast
  then have b: "\<exists>out rq. renovar (env_of [lic_cancelada]) ''123.456.789-01'' 2 = Inr out
      \<and> request out = Some rq
      \<and> req_licenses rq = [lic_cancelada\<lparr>key := Some ''DMU3-AHRY-7ENV-4BJS'',
           expires := Some ''2025-04-02'', status := Some ''active''\<rparr>]"
    by (simp add: env_of_simps isoformat_739343 generate_license_key_example)
  from a b show ?thesis ..
qed

text \<open>
  Counterexample to C1 as stated, in \<^verbatim>\<open>src/bot.py\<close>, on 2025-02-01: the record is active,
  its key is one space (so it is not the empty string), and it expires on 2025-03-01,
  after today. Renewing it for one month starts from zero all the same: the record that
  is sent expires on 2025-03-03 (today plus 30 days, not 2025-03-31) and has a new key.
\<close>

theorem renovar_blank_key_counterexample:
  "status lic_chave_branca = Some ''active''
   \<and> key lic_chave_branca = Some '' ''
   \<and> map_option (fromisoformat (env_of [lic_chave_branca])) (expires lic_chave_branca) =
       Some (Some 739311)
   \<and> today (env_of [lic_chave_branca]) = 739283
   \<and> isoformat (739311 + 30 * 1) = ''2025-03-31''
   \<and> map_option req_licenses
        (case renovar (env_of [lic_chave_branca]) ''123.456.789-01'' 1 of
           Inl err \<Rightarrow> None | Inr out \<Rightarrow> request out) =
       Some [lic_chave_branca\<lparr>key := Some ''DMU3-AHRY-7ENV-4BJS'',
               expires := Some ''2025-03-03'', status := Some ''active''\<rparr>]"
proof -
  have f: "find_license_by_cpf (normalize_cpf_cnpj ''123.456.789-01'') [lic_chave_branca] = Some 0"
    by (rule find_example) (rule lic_chave_branca_fields)
  have t: "truthy ([lic_chave_branca] ! 0)"
    using truthy_example [OF lic_chave_branca_fields(2)] by simp
  have z: "should_start_from_zero (env_of [lic_chave_branca]) ([lic_chave_branca] ! 0)"
    by (simp add: should_start_from_zero_iff lic_chave_branca_fields get_or_def is_space_def)
  have r: "representable (today (env_of [lic_chave_branca])) (30 * 1)"
    by (simp add: env_of_simps representable_def MAXORDINAL_def)
  from renovar_zero [OF get_licenses_env_of f t z r]
  have 1: "map_option req_licenses
        (case renovar (env_of [lic_chave_branca]) ''123.456.789-01'' 1 of
           Inl err \<Rightarrow> None | Inr out \<Rightarrow> request out) =
       Some [lic_chave_branca\<lparr>key := Some ''DMU3-AHRY-7ENV-4BJS'',
               expires := Some ''2025-03-03'', status := Some ''active''\<rparr>]"
    by (auto simp: env_of_simps isoformat_739313 generate_license_key_example)
  have 2: "map_option (fromisoformat (env_of [lic_chave_branca])) (expires lic_chave_branca) =
             Some (Some 739311)"
    by (simp add: lic_chave_branca_fields fromisoformat_2025_03_01 env_of_simps)
  have 3: "isoformat (739311 + 30 * 1) = ''2025-03-31''"
    by (simp add: isoformat_739341)
  from 1 2 3 show ?thesis
    by (simp only: lic_chave_branca_fields env_of_simps simp_thms)
qed

text \<open>
  Claim C6. The two variants of \<open>renovar\<close> implement different policies.
  \<^item> There is a state on which they send different documents: the cancelled example
    record, renewed for one month on 2025-02-01.
  \<^item> On a record found at position \<open>i\<close>, \<open>renovar\<close> of \<^verbatim>\<open>src/bot.py\<close> takes today as base
    date and generates a new key when the record is cancelled, has no key (absent, empty
    or blank) or is expired (the stored \<open>expires\<close>, the empty string when there is
    none, is not a date or is a date not after today), and otherwise takes the date
    \<open>expires\<close> as base date and leaves the key.
  \<^item> On a record found at position \<open>i\<close>, \<open>renovar\<close> of \<^verbatim>\<open>src/telegram-bot/bot.py\<close> takes
    the later of the current expiry (today when \<open>expires\<close> is absent or not a date) and
    today as base date, and leaves the key, in every case.
  In each case the base date plus \<open>30 * meses\<close> days has to be a date. A string is a date
  when \<^verbatim>\<open>date.fromisoformat\<close> of the environment accepts it, so the statement holds on
  every version of Python.
\<close>

theorem renovar_variants_diverge:
  "(\<exists>out rq out' rq'.
       renovar (env_of [lic_cancelada]) ''123.456.789-01'' 1 = Inr out \<and> request out = Some rq
     \<and> renovar_tg (env_of [lic_cancelada]) ''123.456.789-01'' 1 = Inr out' \<and> request out' = Some rq'
     \<and> req_licenses rq \<noteq> req_licenses rq')
   \<and> (\<forall>e licenses sha arg0 i meses.
        get_licenses e = (licenses, sha)
        \<and> find_license_by_cpf (normalize_cpf_cnpj arg0) licenses = Some i
        \<and> truthy (licenses ! i) \<longrightarrow>
        ((status (licenses ! i) = Some ''cancelled''
            \<or> (\<forall>c \<in> set (get_or (key (licenses ! i)) ''''). is_space c)
            \<or> (\<forall>d. fromisoformat e (get_or (expires (licenses ! i)) '''') = Some d \<longrightarrow> d \<le> today e))
          \<and> representable (today e) (30 * meses) \<longrightarrow>
          (\<exists>out rq. renovar e arg0 meses = Inr out \<and> request out = Some rq
             \<and> req_licenses rq = licenses[i := (licenses ! i)
                  \<lparr>key := Some (generate_license_key (entropy e)),
                   expires := Some (isoformat (today e + 30 * meses)),
                   status := Some ''active''\<rparr>]))
        \<and> (\<forall>d. status (licenses ! i) \<noteq> Some ''cancelled''
              \<and> (\<exists>c \<in> set (get_or (key (licenses ! i)) ''''). \<not> is_space c)
              \<and> fromisoformat e (get_or (expires (licenses ! i)) '''') = Some d \<and> today e < d
              \<and> representable d (30 * meses) \<longrightarrow>
              (\<exists>out rq. renovar e arg0 meses = Inr out \<and> request out = Some rq
                 \<and> req_licenses rq = licenses[i := (licenses ! i)
                      \<lparr>expires := Some (isoformat (d + 30 * meses)),
                       status := Some ''active''\<rparr>]))
        \<and> (\<forall>b. b = (case expires (licenses ! i) of
                       None \<Rightarrow> today e
                     | Some s \<Rightarrow> (case fromisoformat e s of
                                   None \<Rightarrow> today e | Some d \<Rightarrow> max d (today e)))
              \<and> representable b (30 * meses) \<longrightarrow>
              (\<exists>out rq. renovar_tg e arg0 meses = Inr out \<and> request out = Some rq
                 \<and> req_licenses rq = licenses[i := (licenses ! i)
                      \<lparr>expires := Some (isoformat (b + 30 * meses)),
                       status := Some ''active''\<rparr>])))"
proof (intro conjI allI impI)
  let ?e = "env_of [lic_cancelada]"
  have f: "find_license_by_cpf (normalize_cpf_cnpj ''123.456.789-01'') [lic_cancelada] = Some 0"
    by (rule find_example) (rule lic_cancelada_fields)
  have t: "truthy ([lic_cancelada] ! 0)"
    using truthy_example [OF lic_cancelada_fields(2)] by simp
  have z: "should_start_from_zero ?e ([lic_cancelada] ! 0)"
    by (simp add: should_start_from_zero_iff lic_cancelada_fields)
  have r: "representable (today ?e) (30 * 1)"
    by (simp add: env_of_simps representable_def MAXORDINAL_def)
  have c: "current_expires_tg ?e lic_cancelada = 739311"
    by (simp add: current_expires_tg_def lic_cancelada_fields env_of_simps
          fromisoformat_2025_03_01)
  have r': "representable (max (current_expires_tg ?e ([lic_cancelada] ! 0)) (today ?e)) (30 * 1)"
    by (simp add: c env_of_simps representable_def MAXORDINAL_def)
  from renovar_zero [OF get_licenses_env_of f t z r] obtain out rq where
    a: "renovar ?e ''123.456.789-01'' 1 = Inr out" "request out = Some rq"
      "req_licenses rq = [lic_cancelada\<lparr>key := Some ''DMU3-AHRY-7ENV-4BJS'',
           expires := Some ''2025-03-03'', status := Some ''active''\<rparr>]"
    by (auto simp: env_of_simps isoformat_739313 generate_license_key_example)
  from renovar_tg_found [OF get_licenses_env_of f t r'] obtain out' rq' where
    b: "renovar_tg ?e ''123.456.789-01'' 1 = Inr out'" "request out' = Some rq'"
      "req_licenses rq' = [lic_cancelada\<lparr>expires := Some ''2025-03-31'',
           status := Some ''active''\<rparr>]"
    by (auto simp: c env_of_simps isoformat_739341)
  have "req_licenses rq \<noteq> req_licenses rq'"
    by (simp add: a(3) b(3) lic_cancelada_def lic_ativa_def nova_licenca_def)
  with a b show "\<exists>out rq out' rq'.
       renovar ?e ''123.456.789-01'' 1 = Inr out \<and> request out = Some rq
     \<and> renovar_tg ?e ''123.456.789-01'' 1 = Inr out' \<and> request out' = Some rq'
     \<and> req_licenses rq \<noteq> req_licenses rq'"
    by blast
next
  fix e licenses sha arg0 i meses
  assume "get_licenses e = (licenses, sha)
        \<and> find_license_by_cpf (normalize_cpf_cnpj arg0) licenses = Some i
        \<and> truthy (licenses ! i)"
    and "(status (licenses ! i) = Some ''cancelled''
            \<or> (\<forall>c \<in> set (get_or (key (licenses ! i)) ''''). is_space c)
            \<or> (\<forall>d. fromisoformat e (get_or (expires (licenses ! i)) '''') = Some d \<longrightarrow> d \<le> today e))
          \<and> representable (today e) (30 * meses)"
  then show "\<exists>out rq. renovar e arg0 meses = Inr out \<and> request out = Some rq
             \<and> req_licenses rq = licenses[i := (licenses ! i)
                  \<lparr>key := Some (generate_license_key (entropy e)),
                   expires := Some (isoformat (today e + 30 * meses)),
                   status := Some ''active''\<rparr>]"
    using renovar_reset [of e licenses sha arg0 i meses] by blast
next
  fix e licenses sha arg0 i meses d
  assume "get_licenses e = (licenses, sha)
        \<and> find_license_by_cpf (normalize_cpf_cnpj arg0) licenses = Some i
        \<and> truthy (licenses ! i)"
    and "status (licenses ! i) \<noteq> Some ''cancelled''
              \<and> (\<exists>c \<in> set (get_or (key (licenses ! i)) ''''). \<not> is_space c)
              \<and> fromisoformat e (get_or (expires (licenses ! i)) '''') = Some d \<and> today e < d
              \<and> representable d (30 * meses)"
  then show "\<exists>out rq. renovar e arg0 meses = Inr out \<and> request out = Some rq
                 \<and> req_licenses rq = licenses[i := (licenses ! i)
                      \<lparr>expires := Some (isoformat (d + 30 * meses)),
                       status := Some ''active''\<rparr>]"
    using renovar_accumulate [of e licenses sha arg0 i d meses] by blast
next
  fix e licenses sha arg0 i meses b
  assume found: "get_licenses e = (licenses, sha)
        \<and> find_license_by_cpf (normalize_cpf_cnpj arg0) licenses = Some i
        \<and> truthy (licenses ! i)"
    and b: "b = (case expires (licenses ! i) of
                       None \<Rightarrow> today e
                     | Some s \<Rightarrow> (case fromisoformat e s of
                                   None \<Rightarrow> today e | Some d \<Rightarrow> max d (today e)))
              \<and> representable b (30 * meses)"
  have eq: "b = max (current_expires_tg e (licenses ! i)) (today e)"
    using b by (simp add: current_expires_tg_def split: option.splits)
  from b have "representable b (30 * meses)"
    by (rule conjunct2)
  then have "representable (max (current_expires_tg e (licenses ! i)) (today e)) (30 * meses)"
    by (simp only: eq)
  moreover from found have "get_licenses e = (licenses, sha)"
    and "find_license_by_cpf (normalize_cpf_cnpj arg0) licenses = Some i"
    and "truthy (licenses ! i)"
    by simp_all
  ultimately have "\<exists>out. renovar_tg e arg0 meses = Inr out
           \<and> request out =
               Some \<lparr>req_message = ''Renovar licenca: '' @ py_str (customer (licenses ! i)),
                     req_licenses = licenses[i := (licenses ! i)
                        \<lparr>expires := Some (isoformat
                            (max (current_expires_tg e (licenses ! i)) (today e) + 30 * meses)),
                         status := Some ''active''\<rparr>],
                     req_updated_at = now e,
                     req_sha = (if sha \<noteq> None \<and> sha \<noteq> Some '''' then sha else None)\<rparr>"
    using renovar_tg_found [of e licenses sha arg0 i meses] by blast
  with eq
  show "\<exists>out rq. renovar_tg e arg0 meses = Inr out \<and> request out = Some rq
                 \<and> req_licenses rq = licenses[i := (licenses ! i)
                      \<lparr>expires := Some (isoformat (b + 30 * meses)),
                       status := Some ''active''\<rparr>]"
    by auto
qed

text \<open>
  Witness for C6: the general part of the theorem at the cancelled example record,
  renewed for one month on 2025-02-01. \<^verbatim>\<open>src/bot.py\<close> sends the record with a new key and
  the expiry 2025-03-03; \<^verbatim>\<open>src/telegram-bot/bot.py\<close> sends it with the old key and the
  expiry 2025-03-31.
\<close>

theorem renovar_variants_diverge_witness:
  "(\<exists>out rq. renovar (env_of [lic_cancelada]) ''123.456.789-01'' 1 = Inr out
      \<and> request out = Some rq
      \<and> req_licenses rq = [lic_cancelada\<lparr>key := Some ''DMU3-AHRY-7ENV-4BJS'',
           expires := Some ''2025-03-03'', status := Some ''active''\<rparr>])
   \<and> (\<exists>out rq. renovar_tg (env_of [lic_cancelada]) ''123.456.789-01'' 1 = Inr out
      \<and> request out = Some rq
      \<and> req_licenses rq = [lic_cancelada\<lparr>expires := Some ''2025-03-31'',
           status := Some ''active''\<rparr>])"
proof -
  let ?e = "env_of [lic_cancelada]"
  have found: "get_licenses ?e = ([lic_cancelada], Some ''3d21ec53'')
        \<and> find_license_by_cpf (normalize_cpf_cnpj ''123.456.789-01'') [lic_cancelada] = Some 0
        \<and> truthy ([lic_cancelada] ! 0)"
    using find_example [OF lic_cancelada_fields(2)] truthy_example [OF lic_cancelada_fields(2)]
    by (simp add: get_licenses_env_of)
  note g = renovar_variants_diverge [THEN conjunct2, rule_format, OF found]
  have c: "status ([lic_cancelada] ! 0) = Some ''cancelled''"
    by (simp add: lic_cancelada_fields)
  have r: "representable (today ?e) (30 * 1)"
    by (simp add: env_of_simps representable_def MAXORDINAL_def)
  from g [THEN conjunct1, of 1] c r
  have "\<exists>out rq. renovar ?e ''123.456.789-01'' 1 = Inr out \<and> request out = Some rq
      \<and> req_licenses rq = [lic_cancelada][0 := ([lic_cancelada] ! 0)
           \<lparr>key := Some (generate_license_key (entropy ?e)),
            expires := Some (isoformat (today ?e + 30 * 1)), status := Some ''active''\<rparr>]"
    by blast
  then have a: "\<exists>out rq. renovar ?e ''123.456.789-01'' 1 = Inr out \<and> request out = Some rq
      \<and> req_licenses rq = [lic_cancelada\<lparr>key := Some ''DMU3-AHRY-7ENV-4BJS'',
           expires := Some ''2025-03-03'', status := Some ''active''\<rparr>]"
    by (simp add: env_of_simps isoformat_739313 generate_license_key_example)
  have b0: "(739311::int) = (case expires ([lic_cancelada] ! 0) of
                       None \<Rightarrow> today ?e
                     | Some s \<Rightarrow> (case fromisoformat ?e s of
                                   None \<Rightarrow> today ?e | Some d \<Rightarrow> max d (today ?e)))"
    by (simp add: lic_cancelada_fields fromisoformat_2025_03_01 env_of_simps)
  have r': "representable 739311 (30 * 1)"
    by (simp add: representable_def MAXORDINAL_def)
  from g [THEN conjunct2, THEN conjunct2, rule_format, of 739311 1] b0 r'
  have "\<exists>out rq. renovar_tg ?e ''123.456.789-01'' 1 = Inr out \<and> request out = Some rq
      \<and> req_licenses rq = [lic_cancelada][0 := ([lic_cancelada] ! 0)
           \<lparr>expires := Some (isoformat (739311 + 30 * 1)), status := Some ''active''\<rparr>]"
    by blast
  then have b: "\<exists>out rq. renovar_tg ?e ''123.456.789-01'' 1 = Inr out \<and> request out = Some rq
      \<and> req_licenses rq = [lic_cancelada\<lparr>expires := Some ''2025-03-31'',
           status := Some ''active''\<rparr>]"
    by (simp add: isoformat_739341)
  from a b show ?thesis ..
qed

lemma isoformat_739281: "isoformat 739281 = ''2025-01-30''"
  by (simp add: isoformat_def ord2ymd_def Let_def DAYS_BEFORE_MONTH_def DAYS_IN_MONTH_def
        fmt04_def fmt02_def digit_char_def)

lemma renovar_request:
  assumes "get_licenses e = (licenses, sha)"
    and "find_license_by_cpf (normalize_cpf_cnpj arg0) licenses = Some i"
    and "truthy (licenses ! i)"
    and "b = (if should_start_from_zero e (licenses ! i) then today e
              else current_expires e (licenses ! i))"
    and "representable b (30 * meses)"
  shows "\<exists>out rq. renovar e arg0 meses = Inr out \<and> request out = Some rq
           \<and> length (req_licenses rq) = length licenses
           \<and> expires (req_licenses rq ! i) = Some (isoformat (b + 30 * meses))"
proof -
  from find_license_by_cpf_Some [OF assms(2)] have i: "i < length licenses"
    by simp
  show ?thesis
  proof (cases "should_start_from_zero e (licenses ! i)")
    case True
    with assms(4) have b: "b = today e"
      by simp
    with assms(5) have r: "representable (today e) (30 * meses)"
      by simp
    from renovar_zero [OF assms(1-3) True r] obtain out where
      "renovar e arg0 meses = Inr out"
      "request out =
         Some \<lparr>req_message = ''Renovar: '' @ py_str (customer (licenses ! i)),
               req_licenses = licenses[i := (licenses ! i)
                  \<lparr>key := Some (generate_license_key (entropy e)),
                   expires := Some (isoformat (today e + 30 * meses)),
                   status := Some ''active''\<rparr>],
               req_updated_at = now e,
               req_sha = (if sha \<noteq> None \<and> sha \<noteq> Some '''' then sha else None)\<rparr>"
      by blast
    with i b show ?thesis
      by simp
  next
    case False
    with assms(4) have b: "b = current_expires e (licenses ! i)"
      by simp
    with assms(5) have r: "representable (current_expires e (licenses ! i)) (30 * meses)"
      by simp
    from renovar_keep [OF assms(1-3) False r] obtain out where
      "renovar e arg0 meses = Inr out"
      "request out =
         Some \<lparr>req_message = ''Renovar: '' @ py_str (customer (licenses ! i)),
               req_licenses = licenses[i := (licenses ! i)
                  \<lparr>expires := Some (isoformat (current_expires e (licenses ! i) + 30 * meses)),
                   status := Some ''active''\<rparr>],
               req_updated_at = now e,
               req_sha = (if sha \<noteq> None \<and> sha \<noteq> Some '''' then sha else None)\<rparr>"
      by blast
    with i b show ?thesis
      by simp
  qed
qed

lemma renovar_tg_request:
  assumes "get_licenses e = (licenses, sha)"
    and "find_license_by_cpf (normalize_cpf_cnpj arg0) licenses = Some i"
    and "truthy (licenses ! i)"
    and "b = max (current_expires_tg e (licenses ! i)) (today e)"
    and "representable b (30 * meses)"
  shows "\<exists>out rq. renovar_tg e arg0 meses = Inr out \<and> request out = Some rq
           \<and> length (req_licenses rq) = length licenses
           \<and> expires (req_licenses rq ! i) = Some (isoformat (b + 30 * meses))"
proof -
  from find_license_by_cpf_Some [OF assms(2)] have i: "i < length licenses"
    by simp
  note b = assms(4)
  with assms(5) have r: "representable (max (current_expires_tg e (licenses ! i)) (today e)) (30 * meses)"
    by simp
  from renovar_tg_found [OF assms(1-3) r] obtain out where
    "renovar_tg e arg0 meses = Inr out"
    "request out =
       Some \<lparr>req_message = ''Renovar licenca: '' @ py_str (customer (licenses ! i)),
             req_licenses = licenses[i := (licenses ! i)
                \<lparr>expires := Some (isoformat
                    (max (current_expires_tg e (licenses ! i)) (today e) + 30 * meses)),
                 status := Some ''active''\<rparr>],
             req_updated_at = now e,
             req_sha = (if sha \<noteq> None \<and> sha \<noteq> Some '''' then sha else None)\<rparr>"
    by blast
  with i b show ?thesis
    by simp
qed

text \<open>
  Claim C10, as the code has it. Neither variant of \<open>renovar\<close> checks the range of
  \<open>meses\<close>. On a record found at position \<open>i\<close>, with \<open>b\<close> the base date of the variant
  (computed with \<^verbatim>\<open>date.fromisoformat\<close> of the environment, whatever its version):
  \<^item> if \<open>b\<close> plus \<open>30 * meses\<close> days is a date, the handler makes the PUT request, with
    the record's \<open>expires\<close> set to that date, for every integer \<open>meses\<close>, also zero and
    negative ones; when \<open>meses \<le> 0\<close> that date is not after \<open>b\<close>;
  \<^item> if it is not a date, the handler raises \<^verbatim>\<open>OverflowError\<close> and has made no request.

  In contrast, \<open>ativar\<close> replies that the months are invalid and makes no request when
  \<open>meses\<close> is outside 1 to 24 (for an identifier of 11 or 14 digits).
\<close>

theorem renovar_no_range_check:
  assumes "get_licenses e = (licenses, sha)"
    and "find_license_by_cpf (normalize_cpf_cnpj arg0) licenses = Some i"
    and "truthy (licenses ! i)"
  shows "(\<forall>b. b = (if should_start_from_zero e (licenses ! i) then today e
                    else current_expires e (licenses ! i))
              \<and> representable b (30 * meses) \<longrightarrow>
            (\<exists>out rq. renovar e arg0 meses = Inr out \<and> request out = Some rq
               \<and> expires (req_licenses rq ! i) = Some (isoformat (b + 30 * meses))
               \<and> (meses \<le> 0 \<longrightarrow> b + 30 * meses \<le> b)))
       \<and> (\<forall>b. b = max (current_expires_tg e (licenses ! i)) (today e)
              \<and> representable b (30 * meses) \<longrightarrow>
            (\<exists>out rq. renovar_tg e arg0 meses = Inr out \<and> request out = Some rq
               \<and> expires (req_licenses rq ! i) = Some (isoformat (b + 30 * meses))
               \<and> (meses \<le> 0 \<longrightarrow> b + 30 * meses \<le> b)))
       \<and> ((length (normalize_cpf_cnpj arg0) = 11 \<or> length (normalize_cpf_cnpj arg0) = 14)
            \<and> (meses < 1 \<or> 24 < meses) \<longrightarrow>
            ativar e arg0 meses rest = Inr \<lparr>reply = MesesInvalido, request = None\<rparr>
            \<and> ativar_tg e arg0 meses rest = Inr \<lparr>reply = MesesInvalido, request = None\<rparr>)
       \<and> (\<not> representable (if should_start_from_zero e (licenses ! i) then today e
                              else current_expires e (licenses ! i)) (30 * meses) \<longrightarrow>
            renovar e arg0 meses = Inl OverflowError)
       \<and> (\<not> representable (max (current_expires_tg e (licenses ! i)) (today e)) (30 * meses) \<longrightarrow>
            renovar_tg e arg0 meses = Inl OverflowError)"
proof (intro conjI allI impI)
  assume "\<not> representable (if should_start_from_zero e (licenses ! i) then today e
                            else current_expires e (licenses ! i)) (30 * meses)"
  then show "renovar e arg0 meses = Inl OverflowError"
    by (rule renovar_overflow [OF assms])
next
  assume "\<not> representable (max (current_expires_tg e (licenses ! i)) (today e)) (30 * meses)"
  then show "renovar_tg e arg0 meses = Inl OverflowError"
    by (rule renovar_tg_overflow [OF assms])
next
  fix b
  assume "b = (if should_start_from_zero e (licenses ! i) then today e
               else current_expires e (licenses ! i)) \<and> representable b (30 * meses)"
  with renovar_request [OF assms, of b meses]
  show "\<exists>out rq. renovar e arg0 meses = Inr out \<and> request out = Some rq
               \<and> expires (req_licenses rq ! i) = Some (isoformat (b + 30 * meses))
               \<and> (meses \<le> 0 \<longrightarrow> b + 30 * meses \<le> b)"
    by auto
next
  fix b
  assume "b = max (current_expires_tg e (licenses ! i)) (today e) \<and> representable b (30 * meses)"
  with renovar_tg_request [OF assms, of b meses]
  show "\<exists>out rq. renovar_tg e arg0 meses = Inr out \<and> request out = Some rq
               \<and> expires (req_licenses rq ! i) = Some (isoformat (b + 30 * meses))
               \<and> (meses \<le> 0 \<longrightarrow> b + 30 * meses \<le> b)"
    by auto
next
  assume "(length (normalize_cpf_cnpj arg0) = 11 \<or> length (normalize_cpf_cnpj arg0) = 14)
            \<and> (meses < 1 \<or> 24 < meses)"
  then show "ativar e arg0 meses rest = Inr \<lparr>reply = MesesInvalido, request = None\<rparr>"
    by (auto simp: ativar_def Let_def)
next
  assume "(length (normalize_cpf_cnpj arg0) = 11 \<or> length (normalize_cpf_cnpj arg0) = 14)
            \<and> (meses < 1 \<or> 24 < meses)"
  then show "ativar_tg e arg0 meses rest = Inr \<lparr>reply = MesesInvalido, request = None\<rparr>"
    by (auto simp: ativar_tg_def Let_def)
qed

text \<open>
  Witness for C10: renewing the active example record (expires 2025-03-01) for minus one
  month on 2025-02-01. Both variants make the request, with the expiry 2025-01-30; and
  \<open>ativar\<close> with minus one month replies that the months are invalid.
\<close>

theorem renovar_no_range_check_witness:
  "(\<exists>out rq. renovar (env_of [lic_ativa]) ''123.456.789-01'' (- 1) = Inr out
       \<and> request out = Some rq \<and> expires (req_licenses rq ! 0) = Some ''2025-01-30'')
   \<and> (\<exists>out rq. renovar_tg (env_of [lic_ativa]) ''123.456.789-01'' (- 1) = Inr out
       \<and> request out = Some rq \<and> expires (req_licenses rq ! 0) = Some ''2025-01-30'')
   \<and> ativar (env_of [lic_ativa]) ''123.456.789-01'' (- 1) [] =
       Inr \<lparr>reply = MesesInvalido, request = None\<rparr>"
proof -
  let ?e = "env_of [lic_ativa]"
  have t: "truthy ([lic_ativa] ! 0)"
    by (simp add: truthy_lic_ativa)
  note g = renovar_no_range_check [OF get_licenses_env_of find_lic_ativa t, of "- 1" "[]"]
  have c: "current_expires ?e lic_ativa = 739311"
    by (simp add: current_expires_def lic_ativa_fields get_or_def fromisoformat_2025_03_01
          env_of_simps)
  have c': "current_expires_tg ?e lic_ativa = 739311"
    by (simp add: current_expires_tg_def lic_ativa_fields fromisoformat_2025_03_01 env_of_simps)
  have z: "\<not> should_start_from_zero ?e lic_ativa"
    using key_not_blank
    by (simp add: should_start_from_zero_iff lic_ativa_fields get_or_def
          fromisoformat_2025_03_01 env_of_simps)
  have b1: "(739311::int) = (if should_start_from_zero ?e ([lic_ativa] ! 0) then today ?e
                    else current_expires ?e ([lic_ativa] ! 0))"
    by (simp add: z c)
  have b2: "(739311::int) = max (current_expires_tg ?e ([lic_ativa] ! 0)) (today ?e)"
    by (simp add: c' env_of_simps)
  have r: "representable 739311 (30 * (- 1))"
    by (simp add: representable_def MAXORDINAL_def)
  have i: "isoformat (739311 + 30 * (- 1)) = ''2025-01-30''"
    by (simp add: isoformat_739281)
  from g [THEN conjunct1, rule_format, of 739311] b1 r
  have "\<exists>out rq. renovar ?e ''123.456.789-01'' (- 1) = Inr out
       \<and> request out = Some rq
       \<and> expires (req_licenses rq ! 0) = Some (isoformat (739311 + 30 * (- 1)))"
    by blast
  then have a: "\<exists>out rq. renovar ?e ''123.456.789-01'' (- 1) = Inr out
       \<and> request out = Some rq \<and> expires (req_licenses rq ! 0) = Some ''2025-01-30''"
    by (simp only: i)
  from g [THEN conjunct2, THEN conjunct1, rule_format, of 739311] b2 r
  have "\<exists>out rq. renovar_tg ?e ''123.456.789-01'' (- 1) = Inr out
       \<and> request out = Some rq
       \<and> expires (req_licenses rq ! 0) = Some (isoformat (739311 + 30 * (- 1)))"
    by blast
  then have b: "\<exists>out rq. renovar_tg ?e ''123.456.789-01'' (- 1) = Inr out
       \<and> request out = Some rq \<and> expires (req_licenses rq ! 0) = Some ''2025-01-30''"
    by (simp only: i)
  have l: "length (normalize_cpf_cnpj ''123.456.789-01'') = 11"
    by (simp add: normalize_example)
  from g [THEN conjunct2, THEN conjunct2, THEN conjunct1] l
  have d: "ativar ?e ''123.456.789-01'' (- 1) [] = Inr \<lparr>reply = MesesInvalido, request = None\<rparr>"
    by simp
  from a b d show ?thesis
    by blast
qed

text \<open>
  Counterexample to C10 as stated: renewing the active example record for 1000000 months
  on 2025-02-01. The base date plus 30000000 days is beyond the year 9999; both variants
  raise \<^verbatim>\<open>OverflowError\<close> and make no request.
\<close>

theorem renovar_overflow_counterexample:
  "renovar (env_of [lic_ativa]) ''123.456.789-01'' 1000000 = Inl OverflowError
   \<and> renovar_tg (env_of [lic_ativa]) ''123.456.789-01'' 1000000 = Inl OverflowError"
proof -
  let ?e = "env_of [lic_ativa]"
  have t: "truthy ([lic_ativa] ! 0)"
    by (simp add: truthy_lic_ativa)
  have c: "current_expires ?e lic_ativa = 739311"
    by (simp add: current_expires_def lic_ativa_fields get_or_def fromisoformat_2025_03_01
          env_of_simps)
  have c': "current_expires_tg ?e lic_ativa = 739311"
    by (simp add: current_expires_tg_def lic_ativa_fields fromisoformat_2025_03_01 env_of_simps)
  have r1: "\<not> representable (if should_start_from_zero ?e ([lic_ativa] ! 0) then today ?e
                            else current_expires ?e ([lic_ativa] ! 0)) (30 * 1000000)"
    by (simp add: c env_of_simps representable_def MAXORDINAL_def)
  have r2: "\<not> representable (max (current_expires_tg ?e ([lic_ativa] ! 0)) (today ?e))
                 (30 * 1000000)"
    by (simp add: c' env_of_simps representable_def MAXORDINAL_def)
  from renovar_overflow [OF get_licenses_env_of find_lic_ativa t r1]
    renovar_tg_overflow [OF get_licenses_env_of find_lic_ativa t r2]
  show ?thesis ..
qed

subsection \<open>Fetch and write outcomes\<close>

text \<open>
  Claim C4, as the code has it. \<open>get_licenses\<close> returns a pair of a list and a revision:
  the empty list and no revision when the token is not configured or anything in the
  request or the decoding raises, and otherwise the whole decoded list (the empty list
  when the payload has no \<^verbatim>\<open>licenses\<close>) with the decoded revision; there is no
  outcome with a part of the document. \<open>save_licenses\<close> returns a boolean: true exactly
  when the token is configured and the response has status 200 or 201, and false for
  every failure, whatever its kind.
\<close>

theorem store_outcomes:
  "(GITHUB_TOKEN e = '''' \<or> github_get e = GetRaised \<longrightarrow> get_licenses e = ([], None))
   \<and> (GITHUB_TOKEN e \<noteq> '''' \<and> github_get e = GetDecoded (Some ls) rv \<longrightarrow>
        get_licenses e = (ls, rv))
   \<and> (GITHUB_TOKEN e \<noteq> '''' \<and> github_get e = GetDecoded None rv \<longrightarrow>
        get_licenses e = ([], rv))
   \<and> (fst (save_licenses e licenses sha msg) \<longleftrightarrow>
        GITHUB_TOKEN e \<noteq> '''' \<and> (github_put e = PutStatus 200 \<or> github_put e = PutStatus 201))
   \<and> (GITHUB_TOKEN e \<noteq> '''' \<longrightarrow>
        snd (save_licenses e licenses sha msg) =
          Some \<lparr>req_message = msg, req_licenses = licenses, req_updated_at = now e,
                req_sha = (if sha \<noteq> None \<and> sha \<noteq> Some '''' then sha else None)\<rparr>)
   \<and> (GITHUB_TOKEN e = '''' \<longrightarrow> snd (save_licenses e licenses sha msg) = None)"
proof -
  have "fst (save_licenses e licenses sha msg) \<longleftrightarrow>
        GITHUB_TOKEN e \<noteq> '''' \<and> (github_put e = PutStatus 200 \<or> github_put e = PutStatus 201)"
    by (cases "github_put e") (auto simp: save_licenses_def Let_def)
  moreover have "GITHUB_TOKEN e = '''' \<longrightarrow> snd (save_licenses e licenses sha msg) = None"
    by (simp add: save_licenses_def)
  ultimately show ?thesis
    using save_licenses_request [of e licenses sha msg]
    by (auto simp: get_licenses_def get_or_def)
qed

text \<open>
  Witness for C4: a fetch that raises gives the empty list without revision; the fetch
  of the example environment gives its document and revision; a write answered with status
  200 returns true.
\<close>

theorem store_outcomes_witness:
  "get_licenses ((env_of [lic_ativa])\<lparr>github_get := GetRaised\<rparr>) = ([], None)
   \<and> get_licenses (env_of [lic_ativa]) = ([lic_ativa], Some ''3d21ec53'')
   \<and> fst (save_licenses (env_of []) [lic_ativa] (Some ''3d21ec53'') ''Ativar: Cliente 8901'')"
proof -
  have 1: "github_get ((env_of [lic_ativa])\<lparr>github_get := GetRaised\<rparr>) = GetRaised"
    by simp
  have 2: "GITHUB_TOKEN (env_of [lic_ativa]) \<noteq> ''''
           \<and> github_get (env_of [lic_ativa]) = GetDecoded (Some [lic_ativa]) (Some ''3d21ec53'')"
    by (simp add: env_of_def)
  have 3: "GITHUB_TOKEN (env_of []) \<noteq> ''''
           \<and> (github_put (env_of []) = PutStatus 200 \<or> github_put (env_of []) = PutStatus 201)"
    by (simp add: env_of_def)
  from store_outcomes [of "(env_of [lic_ativa])\<lparr>github_get := GetRaised\<rparr>"] 1
  have a: "get_licenses ((env_of [lic_ativa])\<lparr>github_get := GetRaised\<rparr>) = ([], None)"
    by blast
  from store_outcomes [of "env_of [lic_ativa]" "[lic_ativa]" "Some ''3d21ec53''"] 2
  have b: "get_licenses (env_of [lic_ativa]) = ([lic_ativa], Some ''3d21ec53'')"
    by blast
  from store_outcomes [of "env_of []" _ _ "[lic_ativa]" "Some ''3d21ec53''" "''Ativar: Cliente 8901''"] 3
  have c: "fst (save_licenses (env_of []) [lic_ativa] (Some ''3d21ec53'') ''Ativar: Cliente 8901'')"
    by blast
  from a b c show ?thesis
    by blast
qed

text \<open>
  Counterexample to C4 as stated: a write that the store refuses because the revision is
  stale (HTTP status 409) and a write that does not reach the store (\<^verbatim>\<open>URLError\<close>) have
  the same outcome, \<open>False\<close> with the same request; the caller cannot tell a conflict
  from an unavailable store.
\<close>

theorem save_licenses_counterexample:
  "save_licenses ((env_of [])\<lparr>github_put := PutHTTPError 409\<rparr>) [lic_ativa] (Some ''3d21ec53'')
       ''Cancelar: Cliente 8901''
     = save_licenses ((env_of [])\<lparr>github_put := PutURLError\<rparr>) [lic_ativa] (Some ''3d21ec53'')
       ''Cancelar: Cliente 8901''
   \<and> fst (save_licenses ((env_of [])\<lparr>github_put := PutHTTPError 409\<rparr>) [lic_ativa]
            (Some ''3d21ec53'') ''Cancelar: Cliente 8901'') = False
   \<and> PutHTTPError 409 \<noteq> PutURLError"
  by (simp add: save_licenses_def env_of_def Let_def)

subsection \<open>Licenses about to expire\<close>

lemma proximas_filter:
  "proximas parse hoje limite ls =
     map (\<lambda>lic. (lic, the (parse (get_or (expires lic) '''')) - hoje))
       (filter (\<lambda>lic. status lic = Some ''active''
                  \<and> (\<exists>d. parse (get_or (expires lic) '''') = Some d \<and> d \<le> limite)) ls)"
  by (induction ls) (auto split: option.splits)

lemma sort_key_eq_Nil: "sort_key f xs = [] \<longleftrightarrow> xs = []"
  using length_sort [of f xs] by (metis length_0_conv)

lemma vencendo_tg_unfold:
  assumes "get_licenses e = (licenses, sha)" and "representable (today e) 7"
  shows "vencendo_tg e =
           Inr \<lparr>reply = (if proximas (fromisoformat e) (today e) (today e + 7) licenses = [] then NenhumaVencendo
                          else Vencendo (sort_key snd (proximas (fromisoformat e) (today e) (today e + 7) licenses))),
                request = None\<rparr>"
  using assms(1) by (simp add: vencendo_tg_def Let_def date_add_representable [OF assms(2)])

text \<open>
  Claim C5, as the code has it. When today plus 7 days is a date, \<open>vencendo\<close> makes no
  request and replies with the list \<open>ps\<close> (or with the message that nothing is about to
  expire when \<open>ps\<close> is empty), where \<open>ps\<close> holds exactly the records whose status is
  \<^verbatim>\<open>active\<close> and whose \<open>expires\<close> is a date not after today plus 7 days, each with its
  number of days from today (negative when the record has expired already: there is no
  lower bound), in ascending order of that number, records with the same number in the
  order of the document. A record of any other status is not in the list. The stored
  \<open>expires\<close> is a date when \<^verbatim>\<open>date.fromisoformat\<close> of the environment accepts it, so
  the statement holds on every version of Python.
\<close>

theorem vencendo_tg_result:
  assumes "get_licenses e = (licenses, sha)" and "representable (today e) 7"
  shows "\<exists>ps. vencendo_tg e =
                Inr \<lparr>reply = (if ps = [] then NenhumaVencendo else Vencendo ps), request = None\<rparr>
           \<and> ps = sort_key snd
                   (map (\<lambda>lic. (lic, the (fromisoformat e (get_or (expires lic) '''')) - today e))
                      (filter (\<lambda>lic. status lic = Some ''active''
                                 \<and> (\<exists>d. fromisoformat e (get_or (expires lic) '''') = Some d
                                        \<and> d \<le> today e + 7)) licenses))
           \<and> sorted (map snd ps)
           \<and> fst ` set ps =
               {lic \<in> set licenses. status lic = Some ''active''
                  \<and> (\<exists>d. fromisoformat e (get_or (expires lic) '''') = Some d \<and> d \<le> today e + 7)}
           \<and> (\<forall>p \<in> set ps. fromisoformat e (get_or (expires (fst p)) '''') = Some (today e + snd p))
           \<and> (\<forall>p \<in> set ps. status (fst p) \<noteq> Some ''suspended'')
           \<and> (\<forall>k. filter (\<lambda>p. snd p = k) ps =
                  filter (\<lambda>p. snd p = k)
                    (map (\<lambda>lic. (lic, the (fromisoformat e (get_or (expires lic) '''')) - today e))
                       (filter (\<lambda>lic. status lic = Some ''active''
                                  \<and> (\<exists>d. fromisoformat e (get_or (expires lic) '''') = Some d
                                         \<and> d \<le> today e + 7)) licenses)))"
proof -
  let ?P = "\<lambda>lic. status lic = Some ''active''
              \<and> (\<exists>d. fromisoformat e (get_or (expires lic) '''') = Some d \<and> d \<le> today e + 7)"
  let ?f = "\<lambda>lic. (lic, the (fromisoformat e (get_or (expires lic) '''')) - today e)"
  let ?ps = "sort_key snd (map ?f (filter ?P licenses))"
  have u: "vencendo_tg e =
      Inr \<lparr>reply = (if ?ps = [] then NenhumaVencendo else Vencendo ?ps), request = None\<rparr>"
    by (simp add: vencendo_tg_unfold [OF assms] proximas_filter sort_key_eq_Nil)
  have s: "sorted (map snd ?ps)"
    by (rule sorted_sort_key)
  have m: "set ?ps = ?f ` {lic \<in> set licenses. ?P lic}"
    by auto
  have i: "fst ` set ?ps = {lic \<in> set licenses. ?P lic}"
    unfolding m by force
  have d: "\<forall>p \<in> set ?ps. fromisoformat e (get_or (expires (fst p)) '''') = Some (today e + snd p)"
    unfolding m by auto
  have n: "\<forall>p \<in> set ?ps. status (fst p) \<noteq> Some ''suspended''"
    unfolding m by auto
  have st: "\<forall>k. filter (\<lambda>p. snd p = k) ?ps = filter (\<lambda>p. snd p = k) (map ?f (filter ?P licenses))"
    by (simp only: sort_key_stable simp_thms)
  from u s i d n st show ?thesis
    by blast
qed

lemma fromisoformat_examples:
  "fromisoformat_extended ''2025-01-31'' = Some 739282"
  "fromisoformat_extended ''2025-02-02'' = Some 739284"
  "fromisoformat_extended ''2025-02-05'' = Some 739287"
  by (simp_all add: fromisoformat_extended.simps is_digit_def digit_val_def days_in_month_def
        DAYS_IN_MONTH_def ymd2ord_def days_before_year_def days_before_month_def
        DAYS_BEFORE_MONTH_def is_leap_def)

lemma example_fields:
  "status lic_vencida = Some ''active''" "expires lic_vencida = Some ''2025-01-31''"
  "status lic_suspensa = Some ''suspended''" "expires lic_suspensa = Some ''2025-02-02''"
  "status lic_vence_5 = Some ''active''" "expires lic_vence_5 = Some ''2025-02-05''"
  "status lic_vence_2 = Some ''active''" "expires lic_vence_2 = Some ''2025-02-02''"
  by (simp_all add: lic_vencida_def lic_suspensa_def lic_vence_5_def lic_vence_2_def
        lic_ativa_fields)

lemma proximas_example:
  "proximas fromisoformat_extended 739283 (739283 + 7) [lic_suspensa, lic_vence_5, lic_ativa, lic_vence_2] =
     [(lic_vence_5, 4), (lic_vence_2, 1)]"
  by (simp add: example_fields lic_ativa_fields get_or_def fromisoformat_examples
        fromisoformat_2025_03_01)

text \<open>
  Witness for C5, on 2025-02-01, for the document of a suspended record that expires
  tomorrow, an active one that expires in 4 days, an active one that expires in 28 days
  and an active one that expires tomorrow: the reply lists the last one and then the
  second one.
\<close>

theorem vencendo_tg_result_witness:
  "vencendo_tg (env_of [lic_suspensa, lic_vence_5, lic_ativa, lic_vence_2]) =
     Inr \<lparr>reply = Vencendo [(lic_vence_2, 1), (lic_vence_5, 4)], request = None\<rparr>"
proof -
  let ?e = "env_of [lic_suspensa, lic_vence_5, lic_ativa, lic_vence_2]"
  have r: "representable (today ?e) 7"
    by (simp add: env_of_simps representable_def MAXORDINAL_def)
  from vencendo_tg_result [OF get_licenses_env_of r] obtain ps where
    ps: "vencendo_tg ?e =
           Inr \<lparr>reply = (if ps = [] then NenhumaVencendo else Vencendo ps), request = None\<rparr>"
    by blast
  have "vencendo_tg ?e =
     Inr \<lparr>reply = Vencendo [(lic_vence_2, 1), (lic_vence_5, 4)], request = None\<rparr>"
    using ps
    by (simp only: vencendo_tg_unfold [OF get_licenses_env_of r] env_of_simps proximas_example)
       simp
  then show ?thesis .
qed

text \<open>
  Counterexample to C5 as stated, on 2025-02-01 (day 739283): the only record is active
  and expired on 2025-01-31 (day 739282), before today. It is in the reply, with minus
  one day.
\<close>

theorem vencendo_tg_counterexample:
  "vencendo_tg (env_of [lic_vencida]) =
     Inr \<lparr>reply = Vencendo [(lic_vencida, - 1)], request = None\<rparr>
   \<and> status lic_vencida = Some ''active''
   \<and> map_option (fromisoformat (env_of [lic_vencida])) (expires lic_vencida) = Some (Some 739282)
   \<and> today (env_of [lic_vencida]) = 739283"
proof -
  let ?e = "env_of [lic_vencida]"
  have r: "representable (today ?e) 7"
    by (simp add: env_of_simps representable_def MAXORDINAL_def)
  have p: "proximas fromisoformat_extended 739283 (739283 + 7) [lic_vencida] = [(lic_vencida, - 1)]"
    by (simp add: example_fields get_or_def fromisoformat_examples)
  have 1: "vencendo_tg ?e = Inr \<lparr>reply = Vencendo [(lic_vencida, - 1)], request = None\<rparr>"
    by (simp only: vencendo_tg_unfold [OF get_licenses_env_of r] env_of_simps p) simp
  have 2: "map_option (fromisoformat (env_of [lic_vencida])) (expires lic_vencida) =
             Some (Some 739282)"
    by (simp add: example_fields fromisoformat_examples env_of_simps)
  from 1 2 show ?thesis
    by (simp only: example_fields env_of_simps simp_thms)
qed

subsection \<open>Listing\<close>

lemma sort_key_lic_rank:
  "fst (sort_key_lic lic) =
     (if status lic = Some ''active'' then 0
      else if status lic = Some ''suspended'' then 1
      else if status lic = Some ''expired'' then 2
      else if status lic = Some ''cancelled'' then 3
      else 9)"
  by (cases "status lic") (auto simp: sort_key_lic_def status_order_def get_or_def)

lemma sort_key_lic_expires: "snd (sort_key_lic lic) = get_or (expires lic) ''''"
  by (simp add: sort_key_lic_def)

lemma listar_tg_unfold:
  assumes "get_licenses e = (licenses, sha)" and "licenses \<noteq> []"
  shows "listar_tg e = \<lparr>reply = Listagem (sort_key sort_key_lic licenses), request = None\<rparr>"
  using assms by (simp add: listar_tg_def)

lemma sorted_map_sorted_wrt:
  "sorted (map f xs) \<longleftrightarrow> sorted_wrt (\<lambda>a b. f a \<le> f b) xs"
  by (induction xs) auto

text \<open>
  Claim C8, as the code has it. For a document that is not empty, \<open>listar\<close> makes no
  request and replies with a rearrangement of the records that is ordered by the rank of
  the stored status (\<^verbatim>\<open>active\<close> 0, \<^verbatim>\<open>suspended\<close> 1, a stored \<^verbatim>\<open>expired\<close> 2,
  \<^verbatim>\<open>cancelled\<close> 3, anything else 9) and, within a rank, by the stored \<open>expires\<close> string
  in ascending order of its characters; records with the same rank and string keep the
  order of the document. The rank does not look at the date: an active record is of rank
  0 whether or not it has expired.
\<close>

theorem listar_tg_order:
  assumes "get_licenses e = (licenses, sha)" and "licenses \<noteq> []"
  shows "\<exists>ls. listar_tg e = \<lparr>reply = Listagem ls, request = None\<rparr>
           \<and> mset ls = mset licenses
           \<and> sorted_wrt (\<lambda>a b. fst (sort_key_lic a) < fst (sort_key_lic b)
                  \<or> fst (sort_key_lic a) = fst (sort_key_lic b)
                    \<and> get_or (expires a) '''' \<le> get_or (expires b) '''') ls
           \<and> (\<forall>k. filter (\<lambda>l. sort_key_lic l = k) ls = filter (\<lambda>l. sort_key_lic l = k) licenses)
           \<and> (\<forall>lic. fst (sort_key_lic lic) =
                  (if status lic = Some ''active'' then 0
                   else if status lic = Some ''suspended'' then 1
                   else if status lic = Some ''expired'' then 2
                   else if status lic = Some ''cancelled'' then 3
                   else 9))"
proof -
  let ?ls = "sort_key sort_key_lic licenses"
  have u: "listar_tg e = \<lparr>reply = Listagem ?ls, request = None\<rparr>"
    using assms by (rule listar_tg_unfold)
  have m: "mset ?ls = mset licenses"
    by simp
  have "sorted (map sort_key_lic ?ls)"
    by (rule sorted_sort_key)
  then have "sorted_wrt (\<lambda>a b. sort_key_lic a \<le> sort_key_lic b) ?ls"
    by (simp only: sorted_map_sorted_wrt)
  then have s: "sorted_wrt (\<lambda>a b. fst (sort_key_lic a) < fst (sort_key_lic b)
                  \<or> fst (sort_key_lic a) = fst (sort_key_lic b)
                    \<and> get_or (expires a) '''' \<le> get_or (expires b) '''') ?ls"
    by (rule sorted_wrt_mono_rel [rotated])
       (auto simp: less_eq_prod_def sort_key_lic_def)
  have st: "\<forall>k. filter (\<lambda>l. sort_key_lic l = k) ?ls = filter (\<lambda>l. sort_key_lic l = k) licenses"
    by (simp only: sort_key_stable simp_thms)
  from u m s st sort_key_lic_rank show ?thesis
    by blast
qed

lemma sort_key_lic_examples:
  "sort_key_lic lic_suspensa = (1, ''2025-02-02'')"
  "sort_key_lic lic_vencida = (0, ''2025-01-31'')"
  by (simp_all add: sort_key_lic_def status_order_def get_or_def example_fields)

lemma listar_example: "sort_key sort_key_lic [lic_suspensa, lic_vencida] = [lic_vencida, lic_suspensa]"
  by (simp add: sort_key_lic_examples)

text \<open>
  Witness for C8: the document of the suspended example record followed by the active
  record that expired on 2025-01-31 is listed with the active record first.
\<close>

theorem listar_tg_order_witness:
  "listar_tg (env_of [lic_suspensa, lic_vencida]) =
     \<lparr>reply = Listagem [lic_vencida, lic_suspensa], request = None\<rparr>"
proof -
  have ne: "[lic_suspensa, lic_vencida] \<noteq> []"
    by simp
  from listar_tg_order [OF get_licenses_env_of ne] obtain ls where
    ls: "listar_tg (env_of [lic_suspensa, lic_vencida]) = \<lparr>reply = Listagem ls, request = None\<rparr>"
    by blast
  have "listar_tg (env_of [lic_suspensa, lic_vencida]) =
     \<lparr>reply = Listagem [lic_vencida, lic_suspensa], request = None\<rparr>"
    using ls by (simp only: listar_tg_unfold [OF get_licenses_env_of ne] listar_example)
  then show ?thesis .
qed

text \<open>
  Counterexample to C8 as stated, on 2025-02-01 (day 739283). The document holds a
  suspended record (rank 1 in the claim) and then an active record that expired on
  2025-01-31 (derived expired, rank 2 in the claim). \<open>listar\<close> puts the expired record
  before the suspended one, so its listing is not ordered by the claim's rank.
\<close>

theorem listar_tg_counterexample:
  "listar_tg (env_of [lic_suspensa, lic_vencida]) =
     \<lparr>reply = Listagem [lic_vencida, lic_suspensa], request = None\<rparr>
   \<and> spec_status_rank (env_of [lic_suspensa, lic_vencida]) lic_vencida = 2
   \<and> spec_status_rank (env_of [lic_suspensa, lic_vencida]) lic_suspensa = 1
   \<and> \<not> sorted (map (spec_status_rank (env_of [lic_suspensa, lic_vencida]))
                 [lic_vencida, lic_suspensa])"
proof -
  have ne: "[lic_suspensa, lic_vencida] \<noteq> []"
    by simp
  have 1: "listar_tg (env_of [lic_suspensa, lic_vencida]) =
     \<lparr>reply = Listagem [lic_vencida, lic_suspensa], request = None\<rparr>"
    by (simp only: listar_tg_unfold [OF get_licenses_env_of ne] listar_example)
  have 2: "spec_status_rank (env_of [lic_suspensa, lic_vencida]) lic_vencida = 2"
    by (simp add: spec_status_rank_def example_fields get_or_def fromisoformat_examples
          env_of_simps)
  have 3: "spec_status_rank (env_of [lic_suspensa, lic_vencida]) lic_suspensa = 1"
    by (simp add: spec_status_rank_def example_fields)
  from 1 2 3 show ?thesis
    by (simp add: env_of_simps)
qed

end
